theory Spec2Isabelle
  imports Complex_Main
begin

section \<open>Python values, exceptions and number conversions\<close>

text \<open>
  The exceptions that the button module can raise: \<open>ValueError\<close> from \<open>Button.new\<close>,
  \<open>TypeError\<close> from \<open>len\<close> or a subscript on a value that has none, \<open>IndexError\<close> from a
  subscript past the end of a list, and \<open>pygame.error\<close> from \<open>pygame.Surface\<close> given a
  negative width or height.
\<close>

datatype error = ValueError | TypeError | IndexError | PygameError

text \<open>Sequencing of calls that may raise: the first exception ends the computation.\<close>

definition ebind :: "error + 'a \<Rightarrow> ('a \<Rightarrow> error + 'b) \<Rightarrow> error + 'b" where
  "ebind m f = (case m of Inl e \<Rightarrow> Inl e | Inr x \<Rightarrow> f x)"

text \<open>
  The values a caller can pass for \<open>rounded_corners\<close> and \<open>shadows\<close> (annotated
  \<open>Union[bool, list]\<close>, unchecked by Python) and the values \<open>resources/styles.json\<close> can hold
  for a button: a bool, a list or tuple of bools, a string, or \<open>None\<close>. On these values
  Python's \<open>==\<close> is structural equality.
\<close>

datatype pyval = PyBool bool | PyList "bool list" | PyTuple "bool list" | PyStr string | PyNone

fun isinstance_bool :: "pyval \<Rightarrow> bool" where
  "isinstance_bool (PyBool b) = True"
| "isinstance_bool v = False"

fun isinstance_list :: "pyval \<Rightarrow> bool" where
  "isinstance_list (PyList bs) = True"
| "isinstance_list v = False"

text \<open>\<open>len(v)\<close>: a bool and \<open>None\<close> have no length.\<close>

fun len :: "pyval \<Rightarrow> error + nat" where
  "len (PyList bs) = Inr (length bs)"
| "len (PyTuple bs) = Inr (length bs)"
| "len (PyStr s) = Inr (length s)"
| "len (PyBool b) = Inl TypeError"
| "len PyNone = Inl TypeError"

text \<open>
  \<open>v[i]\<close> for a literal index \<open>i \<ge> 0\<close>, read where the module reads it: as a condition.
  The result is the truth value of the element; an element of a string is a one-character
  string, which is true.
\<close>

fun getitem :: "pyval \<Rightarrow> nat \<Rightarrow> error + bool" where
  "getitem (PyList bs) i = (if i < length bs then Inr (bs ! i) else Inl IndexError)"
| "getitem (PyTuple bs) i = (if i < length bs then Inr (bs ! i) else Inl IndexError)"
| "getitem (PyStr s) i = (if i < length s then Inr True else Inl IndexError)"
| "getitem (PyBool b) i = Inl TypeError"
| "getitem PyNone i = Inl TypeError"

text \<open>
  \<open>int(x)\<close> truncates towards zero, as does the C conversion pygame applies to a float
  coordinate; \<open>round(x)\<close> rounds to the nearest integer and a tie to the even one. The
  floats of the module are halves of integers (\<open>length / 2\<close>, \<open>size[0] / 2 + 1\<close>), exact in
  binary floating point for every size a surface can have, so they are rationals here.
\<close>

definition py_int :: "rat \<Rightarrow> int" where
  "py_int r = (if 0 \<le> r then \<lfloor>r\<rfloor> else \<lceil>r\<rceil>)"

definition py_round :: "rat \<Rightarrow> int" where
  "py_round r =
     (let f = \<lfloor>r\<rfloor>; d = r - of_int f
      in if d < 1 / 2 then f else if 1 / 2 < d then f + 1 else if even f then f else f + 1)"

section \<open>The pygame primitives the module calls\<close>

type_synonym color = "nat \<times> nat \<times> nat \<times> nat"

text \<open>
  A surface: its size, whether it has per-pixel alpha (\<open>pygame.SRCALPHA\<close>), its colour key
  and its pixels. Only the pixels inside the size are part of the image.
\<close>

record Surface =
  get_width :: nat
  get_height :: nat
  srcalpha :: bool
  colorkey :: "color option"
  get_at :: "int \<Rightarrow> int \<Rightarrow> color"

definition inside :: "Surface \<Rightarrow> int \<Rightarrow> int \<Rightarrow> bool" where
  "inside s x y = (0 \<le> x \<and> x < int (get_width s) \<and> 0 \<le> y \<and> y < int (get_height s))"

definition opaque :: "color \<Rightarrow> color" where
  "opaque c = (case c of (r, g, b, a) \<Rightarrow> (r, g, b, 255))"

text \<open>
  A fresh surface: transparent with \<open>SRCALPHA\<close>, opaque black without. The module's tiles,
  strips and text surfaces are made with it: their sizes are not negative, and their
  allocation is not modelled to fail.
\<close>

definition new_surface :: "nat \<Rightarrow> nat \<Rightarrow> bool \<Rightarrow> Surface" where
  "new_surface w h alpha =
     \<lparr>get_width = w, get_height = h, srcalpha = alpha, colorkey = None,
      get_at = (\<lambda>x y. if alpha then (0, 0, 0, 0) else (0, 0, 0, 255))\<rparr>"

text \<open>A number that a C \<open>int\<close> holds.\<close>

definition c_int :: "int \<Rightarrow> bool" where
  "c_int x = (- 2147483648 \<le> x \<and> x \<le> 2147483647)"

text \<open>
  \<open>pygame.Surface(size, flags)\<close>. pygame converts the width and the height to C ints and
  raises \<open>pygame.error\<close> when one of them is negative, or when SDL cannot allocate the
  surface; whether it can, for a width and a height, is the parameter \<open>alloc\<close>.

  The conversion truncates: a width or height from \<open>2^31\<close> to \<open>2^32 - 1\<close> becomes negative
  and raises as a negative one does, and a larger one can become a size that is not the
  one asked for, of which pygame then returns a surface. There the model does not follow
  pygame: every size outside the C \<open>int\<close> range raises here, so that a surface that was
  returned always has the size that was asked for.
\<close>

definition pygame_Surface ::
  "(nat \<Rightarrow> nat \<Rightarrow> bool) \<Rightarrow> int \<times> int \<Rightarrow> bool \<Rightarrow> error + Surface" where
  "pygame_Surface alloc size' alpha =
     (if c_int (fst size') \<and> c_int (snd size')
      then (if fst size' < 0 \<or> snd size' < 0 then Inl PygameError
            else if alloc (nat (fst size')) (nat (snd size'))
              then Inr (new_surface (nat (fst size')) (nat (snd size')) alpha)
            else Inl PygameError)
      else Inl PygameError)"

text \<open>
  \<open>pygame.draw.rect(surface, color, (x, y, w, h))\<close>, filled, clipped to the surface. A
  rectangle whose width or height is not positive covers no pixel. A surface without
  per-pixel alpha stores the colour opaque.
\<close>

definition draw_rect :: "Surface \<Rightarrow> color \<Rightarrow> int \<times> int \<times> int \<times> int \<Rightarrow> Surface" where
  "draw_rect s c r =
     (case r of (x, y, w, h) \<Rightarrow>
        s\<lparr>get_at := (\<lambda>i j.
            if inside s i j \<and> x \<le> i \<and> i < x + w \<and> y \<le> j \<and> j < y + h
            then (if srcalpha s then c else opaque c)
            else get_at s i j)\<rparr>)"

text \<open>
  \<open>dest.blit(source, (dx, dy))\<close> onto a destination with per-pixel alpha (every destination
  of the module has it), clipped to the destination. A source with per-pixel alpha is
  blended over the destination by pygame's blending function \<open>bl\<close>, a parameter here; a
  source without it is copied opaque, except for the pixels of its colour key.
\<close>

definition blit :: "(color \<Rightarrow> color \<Rightarrow> color) \<Rightarrow> Surface \<Rightarrow> Surface \<Rightarrow> int \<times> int \<Rightarrow> Surface" where
  "blit bl dest source pos =
     (case pos of (dx, dy) \<Rightarrow>
        dest\<lparr>get_at := (\<lambda>i j.
            if inside dest i j \<and> inside source (i - dx) (j - dy)
            then (let p = get_at source (i - dx) (j - dy); q = get_at dest i j
                  in if srcalpha source then bl p q
                     else if colorkey source = Some p then q
                     else opaque p)
            else get_at dest i j)\<rparr>)"

text \<open>\<open>pygame.transform.flip(surface, flip_x, flip_y)\<close>.\<close>

definition transform_flip :: "Surface \<Rightarrow> bool \<Rightarrow> bool \<Rightarrow> Surface" where
  "transform_flip s flip_x flip_y =
     s\<lparr>get_at := (\<lambda>i j.
         get_at s (if flip_x then int (get_width s) - 1 - i else i)
                  (if flip_y then int (get_height s) - 1 - j else j))\<rparr>"

text \<open>
  \<open>pygame.transform.rotate(surface, 90)\<close>: a quarter turn counterclockwise, which swaps
  width and height and takes the top row to the left column. pygame returns a surface
  that has no pixel (a width or height of 0) as it is.
\<close>

definition transform_rotate90 :: "Surface \<Rightarrow> Surface" where
  "transform_rotate90 s =
     (if get_width s < 1 \<or> get_height s < 1 then s
      else s\<lparr>get_width := get_height s, get_height := get_width s,
             get_at := (\<lambda>i j. get_at s (int (get_width s) - 1 - j) i)\<rparr>)"

text \<open>
  \<open>PixelArray(surface).replace(color, repcolor)\<close> with the default distance 0: every pixel
  of the surface equal to \<open>color\<close> becomes \<open>repcolor\<close>, every other pixel stays.
\<close>

definition PixelArray_replace :: "Surface \<Rightarrow> color \<Rightarrow> color \<Rightarrow> Surface" where
  "PixelArray_replace s c repcolor =
     s\<lparr>get_at := (\<lambda>i j. if inside s i j \<and> get_at s i j = c then repcolor else get_at s i j)\<rparr>"

text \<open>
  \<open>surface.get_rect(center=(cx, cy))\<close>: the top left corner of the rectangle of the
  surface's size whose centre is the given point, the coordinates truncated to integers.
\<close>

definition get_rect_center :: "Surface \<Rightarrow> rat \<times> rat \<Rightarrow> int \<times> int" where
  "get_rect_center s c =
     (py_int (fst c) - int (get_width s) div 2, py_int (snd c) - int (get_height s) div 2)"

section \<open>What the module reads from outside\<close>

text \<open>
  The resources and libraries behind the module: the image files (\<open>image_load path\<close> is
  \<open>pygame.image.load(path).convert_alpha()\<close>), the font (\<open>FONT_render item\<close> is
  \<open>FONT.render(item, False, COLOR)\<close>, which can raise: pygame refuses a text with a NUL
  character, for one), pygame's alpha blending, the surfaces SDL can allocate
  (\<open>allocates width height\<close>), the translations (\<open>i18n_t key locale\<close>), the language
  (\<open>_Language.LANGUAGE\<close>) and the three tables of \<open>resources/styles.json\<close>.
\<close>

record env =
  image_load :: "string \<Rightarrow> Surface"
  FONT_render :: "string \<Rightarrow> error + Surface"
  blend :: "color \<Rightarrow> color \<Rightarrow> color"
  allocates :: "nat \<Rightarrow> nat \<Rightarrow> bool"
  i18n_t :: "string \<Rightarrow> string \<Rightarrow> string"
  LANGUAGE :: string
  styles_round :: "string \<rightharpoonup> pyval"
  styles_hanging :: "string \<rightharpoonup> bool"
  styles_shadow :: "string \<rightharpoonup> pyval"

section \<open>Palettes\<close>

text \<open>
  Class \<open>Palette\<close>: entry 0 is transparent, 1 the outline, 2 the inline, 3 the fill and 4 the
  shadow.
\<close>

definition Palette_palette :: "color list" where
  "Palette_palette =
     [(0, 0, 0, 0), (47, 41, 24, 255), (121, 96, 69, 255), (101, 89, 52, 255), (87, 76, 45, 255)]"

definition Palette_hover :: "color list" where
  "Palette_hover =
     [(0, 0, 0, 0), (14, 11, 4, 255), (41, 27, 15, 255), (30, 24, 9, 255), (23, 18, 7, 255)]"

definition Palette_unavailable :: "color list" where
  "Palette_unavailable =
     [(0, 0, 0, 0), (58, 56, 51, 255), (112, 107, 100, 255), (92, 88, 80, 255), (80, 78, 70, 255)]"

section \<open>Symbols\<close>

text \<open>\<open>_Symbol._color = pygame.Color(COLOR)\<close> with \<open>COLOR = (239, 229, 0)\<close>: opaque.\<close>

definition Symbol_color :: color where
  "Symbol_color = (239, 229, 0, 255)"

text \<open>\<open>_Symbol.load\<close>: the image of the file with opaque black replaced by the colour.\<close>

definition Symbol_load :: "env \<Rightarrow> string \<Rightarrow> Surface" where
  "Symbol_load e image_path =
     PixelArray_replace (image_load e image_path) (0, 0, 0, 255) Symbol_color"

text \<open>
  \<open>_Symbol._custom\<close> as \<open>_Symbol.__init__\<close> fills it when the module is imported
  (\<open>PLATFORM\<close> is \<open>None\<close> and \<open>DEBUG\<close> is \<open>False\<close>, so \<open>_populate\<close> is not the one called).
\<close>

definition Symbol_custom :: "env \<Rightarrow> string \<rightharpoonup> Surface" where
  "Symbol_custom e = map_of
     [(''{DICE}'', Symbol_load e ''resources/images/symbols/random_dice.png''),
      (''{ARROW_LEFT_SHORT}'', Symbol_load e ''resources/images/symbols/arrow_short.png''),
      (''{ARROW_RIGHT_SHORT}'',
         transform_flip (Symbol_load e ''resources/images/symbols/arrow_short.png'') True False),
      (''{ARROW_LEFT_MED}'', Symbol_load e ''resources/images/symbols/arrow_medium.png''),
      (''{ARROW_RIGHT_MED}'',
         transform_flip (Symbol_load e ''resources/images/symbols/arrow_medium.png'') True False),
      (''{PATROL_CLAW}'', Symbol_load e ''resources/images/symbols/patrol_claws.png''),
      (''{PATROL_PAW}'', Symbol_load e ''resources/images/symbols/patrol_paw.png''),
      (''{PATROL_MOUSE}'', Symbol_load e ''resources/images/symbols/patrol_mouse.png''),
      (''{PATROL_HERB}'', Symbol_load e ''resources/images/symbols/patrol_herb.png''),
      (''{YOUR_CLAN}'', Symbol_load e ''resources/images/symbols/your_clan.png''),
      (''{OUTSIDE_CLAN}'', Symbol_load e ''resources/images/symbols/outside_clan.png''),
      (''{STARCLAN}'', Symbol_load e ''resources/images/symbols/starclan.png''),
      (''{UNKNOWN_RESIDENCE}'', Symbol_load e ''resources/images/symbols/unknown_residence.png''),
      (''{DARK_FOREST}'', Symbol_load e ''resources/images/symbols/dark_forest.png''),
      (''{LEADER_CEREMONY}'', Symbol_load e ''resources/images/symbols/leader_ceremony.png''),
      (''{MEDIATION}'', Symbol_load e ''resources/images/symbols/mediation.png'')]"

section \<open>Styles and language\<close>

text \<open>
  \<open>_Style.check_round\<close>, \<open>check_hanging\<close> and \<open>check_shadow\<close>. The button's \<open>object_id\<close> may
  be \<open>None\<close>, which no table has as a key; a \<open>null\<close> in the table reads as \<open>None\<close>.
\<close>

definition dict_get :: "('k \<rightharpoonup> 'v) \<Rightarrow> 'k option \<Rightarrow> 'v option" where
  "dict_get d key = (case key of None \<Rightarrow> None | Some k \<Rightarrow> d k)"

definition check_round :: "env \<Rightarrow> string option \<Rightarrow> pyval" where
  "check_round e object_id =
     (case dict_get (styles_round e) object_id of
        Some (PyList bs) \<Rightarrow>
          (if length bs = 4 then PyList bs else PyList [True, True, True, True])
      | Some (PyBool style) \<Rightarrow> PyList [style, style, style, style]
      | _ \<Rightarrow> PyList [True, True, True, True])"

definition check_hanging :: "env \<Rightarrow> string option \<Rightarrow> bool" where
  "check_hanging e object_id =
     (if object_id = None then False
      else (case dict_get (styles_hanging e) object_id of
              Some style \<Rightarrow> style
            | None \<Rightarrow> False))"

definition check_shadow :: "env \<Rightarrow> string option \<Rightarrow> pyval" where
  "check_shadow e object_id =
     (if object_id = None then PyList [True, True, False, False]
      else (case dict_get (styles_shadow e) object_id of
              Some (PyList bs) \<Rightarrow>
                (if length bs = 4 then PyList bs else PyList [True, True, False, False])
            | _ \<Rightarrow> PyList [True, True, False, False]))"

definition dict_global :: "string \<rightharpoonup> string" where
  "dict_global = map_of
     [(''#cat_tab_3_blank_button'', []),
      (''#cat_tab_4_blank_button'', []),
      (''#random_dice_button'', ''{DICE}''),
      (''#paw_patrol_button'', ''{PATROL_PAW}''),
      (''#claws_patrol_button'', ''{PATROL_CLAW}''),
      (''#mouse_patrol_button'', ''{PATROL_MOUSE}''),
      (''#herb_patrol_button'', ''{PATROL_HERB}''),
      (''#patrol_last_page'', ''{ARROW_LEFT_SHORT}''),
      (''#patrol_next_page'', ''{ARROW_RIGHT_SHORT}''),
      (''#arrow_right_button'', ''{ARROW_RIGHT_SHORT}''),
      (''#arrow_left_button'', ''{ARROW_LEFT_SHORT}'')]"

text \<open>\<open>_Language.check\<close>; the warnings it issues change no result.\<close>

definition Language_check :: "env \<Rightarrow> string option \<Rightarrow> string" where
  "Language_check e object_id =
     (case object_id of
        None \<Rightarrow> []
      | Some oid \<Rightarrow>
          (let search_term = ''buttons.'' @ oid;
               translated = i18n_t e search_term (LANGUAGE e)
           in if translated \<noteq> search_term then translated
              else (case dict_global oid of
                      Some search \<Rightarrow> search
                    | None \<Rightarrow>
                        (if LANGUAGE e = ''en-us'' then []
                         else i18n_t e search_term ''en-us''))))"

section \<open>The cache of button surfaces\<close>

text \<open>One dictionary of \<open>ButtonCache._storage\<close>, as \<open>store_button\<close> builds it.\<close>

record cache_item =
  item_surface :: Surface
  item_size :: "int \<times> int"
  item_text :: string
  item_hover :: bool
  item_unavailable :: bool
  item_rounded_corners :: pyval
  item_shadows :: pyval
  item_hanging :: bool

text \<open>
  \<open>ButtonCache.load_button\<close>: the first item of the storage that equals the arguments on
  all seven keys, or \<open>False\<close> (here \<open>None\<close>) when there is none.
\<close>

definition load_button ::
  "cache_item list \<Rightarrow> int \<times> int \<Rightarrow> string \<Rightarrow> bool \<Rightarrow> bool \<Rightarrow> pyval \<Rightarrow> pyval \<Rightarrow> bool
     \<Rightarrow> cache_item option" where
  "load_button storage size' text hover unavailable rounded_corners shadows hanging =
     (let obj = filter (\<lambda>item.
                  size' = item_size item \<and> text = item_text item \<and> hover = item_hover item \<and>
                  unavailable = item_unavailable item \<and>
                  rounded_corners = item_rounded_corners item \<and>
                  shadows = item_shadows item \<and> hanging = item_hanging item) storage
      in if length obj \<noteq> 0 then Some (obj ! 0) else None)"

text \<open>
  \<open>ButtonCache.store_button\<close>: appends the item and returns the surface it was given,
  together with the storage as it is afterwards.
\<close>

definition store_button ::
  "cache_item list \<Rightarrow> Surface \<Rightarrow> int \<times> int \<Rightarrow> string \<Rightarrow> bool \<Rightarrow> bool \<Rightarrow> pyval \<Rightarrow> pyval \<Rightarrow> bool
     \<Rightarrow> Surface \<times> cache_item list" where
  "store_button storage surface size' text hover unavailable rounded_corners shadows hanging =
     (let store = \<lparr>item_surface = surface, item_size = size', item_text = text,
                   item_hover = hover, item_unavailable = unavailable,
                   item_rounded_corners = rounded_corners, item_shadows = shadows,
                   item_hanging = hanging\<rparr>
      in (surface, storage @ [store]))"

section \<open>The text of a button\<close>

text \<open>\<open>text.split("\n")\<close>, for any separating character.\<close>

fun str_split :: "char \<Rightarrow> string \<Rightarrow> string list" where
  "str_split sep [] = [[]]"
| "str_split sep (c # cs) =
     (if c = sep then [] # str_split sep cs
      else (case str_split sep cs of
              [] \<Rightarrow> [[c]]
            | part # parts \<Rightarrow> (c # part) # parts))"

text \<open>
  \<open>re.split(r"({|})", line)\<close>: the pieces of the line between braces, with each brace
  kept as a piece of its own between them.
\<close>

fun re_split :: "string \<Rightarrow> string list" where
  "re_split [] = [[]]"
| "re_split (c # cs) =
     (if c = CHR ''{'' \<or> c = CHR ''}'' then [] # [c] # re_split cs
      else (case re_split cs of
              [] \<Rightarrow> [[c]]
            | part # parts \<Rightarrow> (c # part) # parts))"

text \<open>\<open>formatted[-1] += char\<close>.\<close>

definition append_last :: "string list \<Rightarrow> string \<Rightarrow> string list" where
  "append_last formatted char = butlast formatted @ [last formatted @ char]"

text \<open>
  One round of the loop over \<open>enumerate(regex)\<close> in \<open>_build_text\<close>. For \<open>e = 0\<close> the piece
  \<open>regex[e-1]\<close> is the last one.
\<close>

definition format_step :: "string list \<Rightarrow> string list \<Rightarrow> nat \<times> string \<Rightarrow> string list" where
  "format_step regex formatted ec =
     (case ec of (e, char) \<Rightarrow>
        if char = [] then formatted
        else if char = ''{'' then append_last (formatted @ [[]]) char
        else if (if e = 0 then last regex else regex ! (e - 1)) = ''{''
          then append_last formatted char
        else if char = ''}'' then append_last formatted char @ [[]]
        else append_last formatted char)"

definition format_line :: "string \<Rightarrow> string list" where
  "format_line line =
     (let regex = re_split line
      in filter (\<lambda>item. item \<noteq> []) (foldl (format_step regex) [[]] (enumerate 0 regex)))"

text \<open>
  A loop whose body may raise, collecting the results: the first exception ends it.
\<close>

fun emap :: "('a \<Rightarrow> error + 'b) \<Rightarrow> 'a list \<Rightarrow> error + 'b list" where
  "emap f [] = Inr []"
| "emap f (x # xs) = ebind (f x) (\<lambda>y. ebind (emap f xs) (\<lambda>ys. Inr (y # ys)))"

text \<open>
  The surface of one item of a line: a symbol on a surface four pixels higher, or the
  item in the font, which may raise.
\<close>

definition render_item :: "env \<Rightarrow> string \<Rightarrow> error + Surface" where
  "render_item e item =
     (case Symbol_custom e item of
        Some symbol \<Rightarrow>
          Inr (blit (blend e) (new_surface (get_width symbol) (get_height symbol + 4) True)
                 symbol (0, 0))
      | None \<Rightarrow> FONT_render e item)"

fun blit_row :: "env \<Rightarrow> Surface \<Rightarrow> Surface list \<Rightarrow> int \<Rightarrow> Surface" where
  "blit_row e text_surface [] current_width = text_surface"
| "blit_row e text_surface (surface # surfaces) current_width =
     blit_row e (blit (blend e) text_surface surface (current_width, 0)) surfaces
       (current_width + int (get_width surface))"

definition line_surface :: "env \<Rightarrow> string \<Rightarrow> error + Surface" where
  "line_surface e line =
     ebind (emap (render_item e) (format_line line)) (\<lambda>surfaces.
       let width_temp = sum_list (map get_width surfaces);
           height_temp = foldl max 0 (map get_height surfaces)
       in Inr (blit_row e (new_surface width_temp height_temp True) surfaces 0))"

fun blit_lines :: "env \<Rightarrow> Surface \<Rightarrow> nat \<Rightarrow> Surface list \<Rightarrow> int \<Rightarrow> Surface" where
  "blit_lines e surface width [] current_height = surface"
| "blit_lines e surface width (text # texts) current_height =
     blit_lines e
       (blit (blend e) surface text
          (py_int (of_nat width / 2 - of_nat (get_width text) / 2), current_height))
       width texts (current_height + int (get_height text))"

text \<open>
  \<open>RectButton._build_text\<close>: the surface of the text, and the value it leaves in
  \<open>self.symbol\<close>; or the exception of the font.
\<close>

definition build_text :: "env \<Rightarrow> string \<Rightarrow> error + Surface \<times> bool" where
  "build_text e text =
     (case Symbol_custom e text of
        Some symbol \<Rightarrow> Inr (symbol, True)
      | None \<Rightarrow>
          ebind (emap (line_surface e) (str_split (CHR 0x0A) text)) (\<lambda>texts.
            let height = sum_list (map get_height texts);
                width = foldl max 0 (map get_width texts)
            in Inr (blit_lines e (new_surface width height True) width texts 0, False)))"

section \<open>The button surface\<close>

datatype button_class = RectButtonClass | SquareButtonClass

record RectButton =
  self_size :: "int \<times> int"
  self_surface :: Surface
  self_hover :: bool
  self_unavailable :: bool
  self_hanging :: bool
  self_symbol :: bool
  self_palette :: "color list"
  self_rounded_corners :: pyval
  self_shadow :: pyval
  self_text :: Surface

text \<open>\<open>RectButton._corner\<close>.\<close>

definition RectButton_corner :: "color list \<Rightarrow> bool \<Rightarrow> bool \<Rightarrow> bool \<Rightarrow> Surface" where
  "RectButton_corner palette shadow_corner1 shadow_corner2 rounded =
     (let surface = new_surface 10 8 True
      in if rounded then
           (let surface = draw_rect surface (palette ! 1) (6, 2, 4, 2);
                surface = draw_rect surface (palette ! 1) (4, 4, 2, 2);
                surface = draw_rect surface (palette ! 1) (2, 6, 2, 2);
                surface = draw_rect surface (palette ! 2) (6, 4, 4, 2);
                surface = draw_rect surface (palette ! 2) (4, 6, 2, 2)
            in if shadow_corner1 \<and> shadow_corner2
               then draw_rect surface (palette ! 4) (6, 6, 4, 2)
               else draw_rect surface (palette ! 3) (6, 6, 4, 2))
         else
           (let surface = draw_rect surface (palette ! 1) (0, 0, 10, 2);
                surface = draw_rect surface (palette ! 1) (0, 0, 2, 8);
                surface = draw_rect surface (palette ! 2) (2, 2, 8, 2);
                surface = draw_rect surface (palette ! 2) (2, 2, 2, 6);
                surface = draw_rect surface (palette ! 3) (4, 4, 6, 2);
                surface = (if shadow_corner1 then draw_rect surface (palette ! 4) (4, 4, 6, 2)
                           else surface)
            in if shadow_corner2 then draw_rect surface (palette ! 4) (4, 4, 2, 4)
               else surface))"

text \<open>\<open>SquareButton._corner\<close>, which overrides it.\<close>

definition SquareButton_corner :: "color list \<Rightarrow> bool \<Rightarrow> bool \<Rightarrow> bool \<Rightarrow> Surface" where
  "SquareButton_corner palette shadow_corner1 shadow_corner2 rounded =
     (let surface = new_surface 10 8 True
      in if rounded then
           (let surface = draw_rect surface (palette ! 1) (4, 0, 6, 2);
                surface = draw_rect surface (palette ! 1) (2, 2, 2, 2);
                surface = draw_rect surface (palette ! 1) (0, 4, 2, 4);
                surface = draw_rect surface (palette ! 3) (4, 4, 4, 4);
                surface = draw_rect surface (palette ! 2) (4, 2, 6, 2);
                surface = draw_rect surface (palette ! 2) (2, 4, 4, 2);
                surface = draw_rect surface (palette ! 2) (2, 4, 2, 4)
            in if shadow_corner1
               then draw_rect (draw_rect surface (palette ! 4) (6, 4, 4, 2)) (palette ! 4) (4, 6, 2, 2)
               else if shadow_corner2
               then draw_rect (draw_rect surface (palette ! 4) (4, 6, 2, 2)) (palette ! 4) (6, 4, 2, 2)
               else surface)
         else
           (let surface = draw_rect surface (palette ! 1) (0, 0, 10, 2);
                surface = draw_rect surface (palette ! 1) (0, 0, 2, 8);
                surface = draw_rect surface (palette ! 2) (2, 2, 8, 2);
                surface = draw_rect surface (palette ! 2) (2, 2, 2, 6);
                surface = draw_rect surface (palette ! 3) (4, 4, 6, 2);
                surface = (if shadow_corner1 then draw_rect surface (palette ! 4) (4, 4, 6, 2)
                           else surface)
            in if shadow_corner2 then draw_rect surface (palette ! 4) (4, 4, 2, 4)
               else surface))"

definition corner :: "button_class \<Rightarrow> color list \<Rightarrow> bool \<Rightarrow> bool \<Rightarrow> bool \<Rightarrow> Surface" where
  "corner cls palette shadow_corner1 shadow_corner2 rounded =
     (case cls of
        RectButtonClass \<Rightarrow> RectButton_corner palette shadow_corner1 shadow_corner2 rounded
      | SquareButtonClass \<Rightarrow> SquareButton_corner palette shadow_corner1 shadow_corner2 rounded)"

text \<open>
  \<open>RectButton._edge\<close>. The test \<open>round(length / 2) != int(length / 2)\<close> is the source's
  test for an odd length.
\<close>

definition edge :: "color list \<Rightarrow> int \<Rightarrow> bool \<Rightarrow> bool \<Rightarrow> bool \<Rightarrow> Surface" where
  "edge palette length0 rotate' flip shadow =
     (let odd' = (py_round (of_int length0 / 2) \<noteq> py_int (of_int length0 / 2) \<and> \<not> rotate');
          length1 = (if odd' then length0 + 1 else length0);
          length' = (if length1 \<le> 0 then 0 else length1);
          surface = new_surface (nat length') 6 True;
          surface = draw_rect surface (palette ! 1) (0, 0, length', 2);
          surface = draw_rect surface (palette ! 2)
                      (0, 2, if \<not> odd' then length' else length' - 1, 2);
          surface = (if shadow
                     then draw_rect surface (palette ! 4)
                            (0, 4, if \<not> odd' then length' else length' - 1, 2)
                     else draw_rect surface (palette ! 3)
                            (0, 4, if \<not> odd' then length' else length' - 1, 2))
      in if rotate' \<and> flip then transform_flip (transform_rotate90 surface) True False
         else if rotate' then transform_rotate90 surface
         else if flip then transform_flip surface False True
         else surface)"

text \<open>\<open>RectButton._hang\<close>.\<close>

definition hang :: "env \<Rightarrow> RectButton \<Rightarrow> error + RectButton" where
  "hang e self =
     ebind (pygame_Surface (allocates e) (fst (self_size self), snd (self_size self) + 6) True)
       (\<lambda>surface.
       let surface = blit (blend e) surface (self_surface self) (0, 6);
           connector = new_surface 10 6 False;
           connector = draw_rect connector (Palette_palette ! 2) (0, 0, 10, 6);
           connector = draw_rect connector (Palette_palette ! 4) (2, 0, 6, 6);
           connector = draw_rect connector (Palette_palette ! 3) (4, 0, 2, 6);
           surface = blit (blend e) surface connector (12, 0);
           surface = blit (blend e) surface connector (fst (self_size self) - 22, 0)
       in Inr (self\<lparr>self_surface := surface\<rparr>))"

text \<open>
  The centre that \<open>_build\<close> gives the text: the first of hanging, symbol and default that
  applies.
\<close>

definition text_center :: "int \<times> int \<Rightarrow> bool \<Rightarrow> bool \<Rightarrow> rat \<times> rat" where
  "text_center size' hanging symbol =
     (if hanging then (of_int (fst size') / 2 + 1, of_int (snd size') / 2 + 2 + 6)
      else if symbol then (of_int (fst size') / 2, of_int (snd size') / 2)
      else (of_int (fst size') / 2 + 1, of_int (snd size') / 2 + 2))"

text \<open>
  The corner for the shadows \<open>i\<close> and \<open>j\<close> and the rounding \<open>k\<close>, the three subscripts read
  in the order of the call's arguments.
\<close>

definition corner_at :: "button_class \<Rightarrow> RectButton \<Rightarrow> nat \<Rightarrow> nat \<Rightarrow> nat \<Rightarrow> error + Surface" where
  "corner_at cls self i j k =
     ebind (getitem (self_shadow self) i) (\<lambda>shadow_corner1.
     ebind (getitem (self_shadow self) j) (\<lambda>shadow_corner2.
     ebind (getitem (self_rounded_corners self) k) (\<lambda>rounded.
       Inr (corner cls (self_palette self) shadow_corner1 shadow_corner2 rounded))))"

definition edge_at :: "RectButton \<Rightarrow> int \<Rightarrow> bool \<Rightarrow> bool \<Rightarrow> nat \<Rightarrow> error + Surface" where
  "edge_at self length' rotate' flip i =
     ebind (getitem (self_shadow self) i) (\<lambda>shadow.
       Inr (edge (self_palette self) length' rotate' flip shadow))"

text \<open>\<open>RectButton._build\<close>, for either class; the warnings of \<open>DEBUG\<close> change no result.\<close>

definition build :: "button_class \<Rightarrow> env \<Rightarrow> RectButton \<Rightarrow> error + RectButton" where
  "build cls e self =
     (let w = fst (self_size self); h = snd (self_size self); bl = blend e;
          surface = draw_rect (self_surface self) (self_palette self ! 3) (4, 4, w - 8, h - 8)
      in ebind (corner_at cls self 0 1 0) (\<lambda>c1.
         let surface = blit bl surface c1 (0, 0)
         in ebind (corner_at cls self 0 2 1) (\<lambda>c3.
         let surface = blit bl surface (transform_flip c3 True False) (w - 10, 0)
         in ebind (corner_at cls self 3 1 2) (\<lambda>c7.
         let surface = blit bl surface (transform_flip c7 False True) (0, h - 8)
         in ebind (corner_at cls self 3 2 3) (\<lambda>c9.
         let surface = blit bl surface (transform_flip c9 True True) (w - 10, h - 8)
         in ebind (edge_at self (w - 20) False False 0) (\<lambda>e2.
         let surface = blit bl surface e2 (10, 0)
         in ebind (edge_at self (h - 16) True False 1) (\<lambda>e4.
         let surface = blit bl surface e4 (0, 8)
         in ebind (edge_at self (h - 16) True True 2) (\<lambda>e6.
         let surface = blit bl surface e6 (w - 6, 8)
         in ebind (edge_at self (w - 20) False True 3) (\<lambda>e8.
         let surface = blit bl surface e8 (10, h - 6);
             self = self\<lparr>self_surface := surface\<rparr>
         in ebind (if self_hanging self then hang e self else Inr self) (\<lambda>self.
         let text_rect = get_rect_center (self_text self)
                           (text_center (self_size self) (self_hanging self) (self_symbol self))
         in Inr (self\<lparr>self_surface :=
                   blit bl (self_surface self) (self_text self) text_rect\<rparr>)))))))))))"

text \<open>\<open>RectButton.__init__\<close> (and \<open>SquareButton\<close>, which inherits it).\<close>

definition RectButton_init ::
  "button_class \<Rightarrow> env \<Rightarrow> int \<times> int \<Rightarrow> string \<Rightarrow> bool \<Rightarrow> bool \<Rightarrow> pyval \<Rightarrow> pyval \<Rightarrow> bool
     \<Rightarrow> error + RectButton" where
  "RectButton_init cls e size' text hover unavailable rounded_corners shadows hanging =
     (let self_size' = (if hanging then (fst size', snd size' - 6) else (fst size', snd size'))
      in ebind (pygame_Surface (allocates e) self_size' True) (\<lambda>surface.
           let palette = (if unavailable then Palette_unavailable
                          else if hover then Palette_hover
                          else Palette_palette)
           in ebind (build_text e text) (\<lambda>built.
                build cls e
                  \<lparr>self_size = self_size', self_surface = surface, self_hover = hover,
                   self_unavailable = unavailable, self_hanging = hanging,
                   self_symbol = snd built, self_palette = palette,
                   self_rounded_corners = rounded_corners, self_shadow = shadows,
                   self_text = fst built\<rparr>)))"

text \<open>
  The check \<open>Button.new\<close> makes of \<open>rounded_corners\<close> and of \<open>shadows\<close>: a bool becomes a list
  of four; otherwise \<open>not isinstance(v, list) and len(v) != 4\<close> raises \<open>ValueError\<close>, and
  \<open>len\<close> is not called on a list.
\<close>

definition check_shape :: "pyval \<Rightarrow> error + pyval" where
  "check_shape v =
     (case v of
        PyBool b \<Rightarrow> Inr (PyList [b, b, b, b])
      | _ \<Rightarrow>
          (if \<not> isinstance_list v
           then ebind (len v) (\<lambda>n. if n \<noteq> 4 then Inl ValueError else Inr v)
           else Inr v))"

text \<open>\<open>Button.new\<close>.\<close>

definition Button_new ::
  "env \<Rightarrow> int \<times> int \<Rightarrow> string \<Rightarrow> bool \<Rightarrow> bool \<Rightarrow> pyval \<Rightarrow> pyval \<Rightarrow> bool \<Rightarrow> error + Surface" where
  "Button_new e size' text hover unavailable rounded_corners shadows hanging =
     ebind (check_shape rounded_corners) (\<lambda>rounded_corners.
     ebind (check_shape shadows) (\<lambda>shadows.
     ebind (if fst size' = snd size'
            then RectButton_init SquareButtonClass e size' text hover unavailable
                   rounded_corners shadows hanging
            else RectButton_init RectButtonClass e size' text hover unavailable
                   rounded_corners shadows hanging) (\<lambda>button.
       Inr (self_surface button))))"

section \<open>The widgets\<close>

text \<open>
  \<open>UIButton.__init__\<close> up to the sprite it hands to \<open>pygame_gui\<close>: the sprite, and the
  storage of the cache afterwards. \<open>load_button\<close> is called with \<open>size\<close> and \<open>text\<close> only, so
  its other five parameters take their defaults.
\<close>

definition UIButton_init ::
  "env \<Rightarrow> cache_item list \<Rightarrow> int \<times> int \<Rightarrow> string \<Rightarrow> string option
     \<Rightarrow> error + Surface \<times> cache_item list" where
  "UIButton_init e storage relative_rect_size text object_id =
     (let rounded_corners = check_round e object_id;
          hanging = check_hanging e object_id;
          shadows = check_shadow e object_id;
          self_text' = (if text \<noteq> [] then text else Language_check e object_id);
          cache = load_button storage relative_rect_size self_text' False False
                    (PyList [True, True, True, True]) (PyList [True, True, False, False]) False
      in case cache of
           Some item \<Rightarrow> Inr (item_surface item, storage)
         | None \<Rightarrow>
             ebind (Button_new e relative_rect_size self_text' False False
                      rounded_corners shadows hanging) (\<lambda>surface.
               Inr (store_button storage surface relative_rect_size self_text' False False
                      rounded_corners shadows hanging)))"

text \<open>
  \<open>CatButton.on_hovered\<close> up to the sprite it sets, for the button whose resolved style and
  text the facade keeps: here \<open>load_button\<close> is given the style.
\<close>

definition CatButton_on_hovered ::
  "env \<Rightarrow> cache_item list \<Rightarrow> int \<times> int \<Rightarrow> string \<Rightarrow> pyval \<Rightarrow> bool \<Rightarrow> pyval
     \<Rightarrow> error + Surface \<times> cache_item list" where
  "CatButton_on_hovered e storage relative_rect_size text rounded_corners hanging shadows =
     (case load_button storage relative_rect_size text True False
             rounded_corners shadows hanging of
        Some item \<Rightarrow> Inr (item_surface item, storage)
      | None \<Rightarrow>
          ebind (Button_new e relative_rect_size text True False
                   rounded_corners shadows hanging) (\<lambda>surface.
            Inr (store_button storage surface relative_rect_size text True False
                   rounded_corners shadows hanging)))"

section \<open>Notions used to state the properties\<close>

text \<open>
  A value whose subscripts 0 to 3 can all be read: what \<open>_build\<close> needs of \<open>self.shadow\<close> and
  \<open>self.rounded_corners\<close>.
\<close>

definition has_four :: "pyval \<Rightarrow> bool" where
  "has_four v =
     (case v of
        PyList bs \<Rightarrow> 4 \<le> length bs
      | PyTuple bs \<Rightarrow> 4 \<le> length bs
      | PyStr s \<Rightarrow> 4 \<le> length s
      | _ \<Rightarrow> False)"



text \<open>
  The rope band as the claims describe it: the top six rows of a hanging button of width
  \<open>w\<close>, transparent but for two connectors ten pixels wide, one from column 12 and one
  from column \<open>w - 22\<close> (the latter on top where they overlap). A connector's columns take,
  from the outside in, the inline, the shadow and the fill colour of the default palette.
\<close>

definition connector_color :: "int \<Rightarrow> color" where
  "connector_color i =
     (if 4 \<le> i \<and> i < 6 then Palette_palette ! 3
      else if 2 \<le> i \<and> i < 8 then Palette_palette ! 4
      else Palette_palette ! 2)"

definition rope_band :: "int \<Rightarrow> int \<Rightarrow> int \<Rightarrow> color" where
  "rope_band w x y =
     (if 0 \<le> x \<and> x < w \<and> 0 \<le> y \<and> y < 6
      then (if w - 22 \<le> x \<and> x < w - 12 then connector_color (x - (w - 22))
            else if 12 \<le> x \<and> x < 22 then connector_color (x - 12)
            else (0, 0, 0, 0))
      else (0, 0, 0, 0))"

text \<open>A canvas of the button's full size that holds the rope band and nothing else.\<close>

definition rope_canvas :: "int \<times> int \<Rightarrow> Surface" where
  "rope_canvas size' =
     \<lparr>get_width = nat (fst size'), get_height = nat (snd size'), srcalpha = True,
      colorkey = None, get_at = rope_band (fst size')\<rparr>"

text \<open>
  A sample environment for evaluating the module on concrete inputs. Every pixel of an
  image file and of a rendered text is opaque and tells its own position: the pixel in
  column \<open>x\<close> and row \<open>y\<close> has the red value \<open>x + 1\<close> and the green value \<open>y + 1\<close>; an image
  file is 16 by 16 and has the length of its path as the blue value, the font draws 8 by
  16 pixels per character, with the blue value 0, and refuses a text with a NUL
  character. Blending keeps the destination under a fully
  transparent source pixel and takes the source otherwise. SDL allocates surfaces of up
  to 4096 by 4096, no translation is known, and the style tables hold one button, which
  hangs.
\<close>

definition test_env :: env where
  "test_env =
     \<lparr>image_load = (\<lambda>path.
        \<lparr>get_width = 16, get_height = 16, srcalpha = True, colorkey = None,
         get_at = (\<lambda>x y. (nat x + 1, nat y + 1, length path, 255))\<rparr>),
      FONT_render = (\<lambda>item.
        if CHR 0x00 \<in> set item then Inl ValueError
        else Inr \<lparr>get_width = 8 * length item, get_height = 16, srcalpha = True,
                  colorkey = None, get_at = (\<lambda>x y. (nat x + 1, nat y + 1, 0, 255))\<rparr>),
      blend = (\<lambda>p q. if snd (snd (snd p)) = 0 then q else p),
      allocates = (\<lambda>width height. width \<le> 4096 \<and> height \<le> 4096),
      i18n_t = (\<lambda>key locale. key),
      LANGUAGE = ''pt-br'',
      styles_round = Map.empty,
      styles_hanging = [''#hanging_button'' \<mapsto> True],
      styles_shadow = Map.empty\<rparr>"




section \<open>Lemmas about the primitives and the construction of a button\<close>

lemma ebind_Inr [simp]: "ebind (Inr x) f = f x"
  by (simp add: ebind_def)

lemma ebind_Inl [simp]: "ebind (Inl err) f = Inl err"
  by (simp add: ebind_def)

lemma ebind_eq_Inr: "ebind m f = Inr y \<longleftrightarrow> (\<exists>x. m = Inr x \<and> f x = Inr y)"
  by (cases m) simp_all

lemma new_surface_sel [simp]:
  "get_width (new_surface w h a) = w"
  "get_height (new_surface w h a) = h"
  "srcalpha (new_surface w h a) = a"
  "colorkey (new_surface w h a) = None"
  "get_at (new_surface w h a) x y = (if a then (0, 0, 0, 0) else (0, 0, 0, 255))"
  by (simp_all add: new_surface_def)

lemma draw_rect_sel [simp]:
  "get_width (draw_rect s c r) = get_width s"
  "get_height (draw_rect s c r) = get_height s"
  "srcalpha (draw_rect s c r) = srcalpha s"
  "colorkey (draw_rect s c r) = colorkey s"
  by (simp_all add: draw_rect_def split: prod.splits)

lemma blit_sel [simp]:
  "get_width (blit bl d s pos) = get_width d"
  "get_height (blit bl d s pos) = get_height d"
  "srcalpha (blit bl d s pos) = srcalpha d"
  "colorkey (blit bl d s pos) = colorkey d"
  by (simp_all add: blit_def split: prod.splits)

lemma transform_flip_sel [simp]:
  "get_width (transform_flip s fx fy) = get_width s"
  "get_height (transform_flip s fx fy) = get_height s"
  "srcalpha (transform_flip s fx fy) = srcalpha s"
  "colorkey (transform_flip s fx fy) = colorkey s"
  by (simp_all add: transform_flip_def)

lemma transform_rotate90_sel [simp]:
  "srcalpha (transform_rotate90 s) = srcalpha s"
  "colorkey (transform_rotate90 s) = colorkey s"
  by (simp_all add: transform_rotate90_def)


lemma inside_draw_rect [simp]: "inside (draw_rect s c r) = inside s"
  by (simp add: inside_def fun_eq_iff)

lemma inside_blit [simp]: "inside (blit bl d s pos) = inside d"
  by (simp add: inside_def fun_eq_iff)

lemma get_at_draw_rect:
  "get_at (draw_rect s c (x, y, w, h)) i j =
     (if inside s i j \<and> x \<le> i \<and> i < x + w \<and> y \<le> j \<and> j < y + h
      then (if srcalpha s then c else opaque c) else get_at s i j)"
  by (simp add: draw_rect_def)

lemma get_at_blit:
  "get_at (blit bl d s (dx, dy)) i j =
     (if inside d i j \<and> inside s (i - dx) (j - dy)
      then (if srcalpha s then bl (get_at s (i - dx) (j - dy)) (get_at d i j)
            else if colorkey s = Some (get_at s (i - dx) (j - dy)) then get_at d i j
            else opaque (get_at s (i - dx) (j - dy)))
      else get_at d i j)"
  by (simp add: blit_def Let_def)

lemma PixelArray_replace_idem:
  "PixelArray_replace (PixelArray_replace s c r) c r = PixelArray_replace s c r"
  by (auto simp add: PixelArray_replace_def inside_def fun_eq_iff)

lemma half_test:
  "(py_round (of_int l / 2) \<noteq> py_int (of_int l / 2)) \<longleftrightarrow> (0 < l \<and> l mod 4 = 3) \<or> (l < 0 \<and> l mod 4 = 1)"
proof (cases "even l")
  case True
  then obtain k where "l = 2 * k" by (elim evenE)
  then show ?thesis by (simp add: py_round_def py_int_def) presburger
next
  case False
  then obtain k where l: "l = 2 * k + 1" by (elim oddE)
  have r: "(of_int l / 2 :: rat) = of_int k + 1 / 2" by (simp add: l field_simps)
  have fl: "\<lfloor>of_int k + 1 / 2 :: rat\<rfloor> = k" by linarith
  have ce: "\<lceil>of_int k + 1 / 2 :: rat\<rceil> = k + 1" by linarith
  have nn: "(0 \<le> (of_int k + 1 / 2 :: rat)) = (0 \<le> k)" by linarith
  show ?thesis unfolding r py_round_def py_int_def fl ce nn Let_def
    using l by (simp) presburger
qed

lemma getitem_has_four: "has_four v \<Longrightarrow> i < 4 \<Longrightarrow> \<exists>b. getitem v i = Inr b"
  by (cases v) (auto simp: has_four_def)

lemma corner_at_returns:
  assumes "has_four (self_shadow self)" "has_four (self_rounded_corners self)"
    and "i < 4" "j < 4" "k < 4"
  shows "\<exists>c. corner_at cls self i j k = Inr c"
proof -
  obtain a where a: "getitem (self_shadow self) i = Inr a"
    using getitem_has_four [OF assms(1) assms(3)] by blast
  obtain b where b: "getitem (self_shadow self) j = Inr b"
    using getitem_has_four [OF assms(1) assms(4)] by blast
  obtain r where r: "getitem (self_rounded_corners self) k = Inr r"
    using getitem_has_four [OF assms(2) assms(5)] by blast
  show ?thesis by (simp add: corner_at_def a b r)
qed

lemma edge_at_returns:
  assumes "has_four (self_shadow self)" "i < 4"
  shows "\<exists>s. edge_at self l r f i = Inr s"
proof -
  obtain a where "getitem (self_shadow self) i = Inr a"
    using getitem_has_four [OF assms] by blast
  then show ?thesis by (simp add: edge_at_def)
qed

lemma pygame_Surface_Inr:
  "pygame_Surface alloc (w, h) a = Inr s \<longleftrightarrow>
     c_int w \<and> c_int h \<and> 0 \<le> w \<and> 0 \<le> h \<and> alloc (nat w) (nat h)
     \<and> s = new_surface (nat w) (nat h) a"
  by (auto simp: pygame_Surface_def)

lemma opaque_palette [simp]:
  "opaque (Palette_palette ! 2) = Palette_palette ! 2"
  "opaque (Palette_palette ! 3) = Palette_palette ! 3"
  "opaque (Palette_palette ! 4) = Palette_palette ! 4"
  by (simp_all add: opaque_def Palette_palette_def)

lemma opaque_idem [simp]: "opaque (opaque c) = opaque c"
  by (simp add: opaque_def split: prod.splits)

lemma opaque_connector_color [simp]: "opaque (connector_color i) = connector_color i"
  by (simp add: connector_color_def)

lemma connector_pixels:
  assumes "0 \<le> i" "i < 10" "0 \<le> j" "j < 6"
  shows "get_at (draw_rect (draw_rect (draw_rect (new_surface 10 6 False)
           (Palette_palette ! 2) (0, 0, 10, 6)) (Palette_palette ! 4) (2, 0, 6, 6))
           (Palette_palette ! 3) (4, 0, 2, 6)) i j = connector_color i"
  using assms by (simp add: get_at_draw_rect inside_def connector_color_def)

lemma hang_returns:
  assumes ps: "pygame_Surface (allocates e) (fst (self_size self), snd (self_size self) + 6) True
                 = Inr c"
    and h0: "0 \<le> snd (self_size self)"
  shows "\<exists>s. hang e self = Inr (self\<lparr>self_surface := s\<rparr>)
           \<and> get_width s = nat (fst (self_size self))
           \<and> get_height s = nat (snd (self_size self) + 6)
           \<and> (\<forall>x y. y < 6 \<longrightarrow> get_at s x y = rope_band (fst (self_size self)) x y)"
proof -
  define w where "w = fst (self_size self)"
  define h where "h = snd (self_size self)"
  define conn where "conn = draw_rect (draw_rect (draw_rect (new_surface 10 6 False)
           (Palette_palette ! 2) (0, 0, 10, 6)) (Palette_palette ! 4) (2, 0, 6, 6))
           (Palette_palette ! 3) (4, 0, 2, 6)"
  define base where "base = blit (blend e) (new_surface (nat w) (nat (h + 6)) True) (self_surface self) (0, 6)"
  define s1 where "s1 = blit (blend e) base conn (12, 0)"
  define s2 where "s2 = blit (blend e) s1 conn (w - 22, 0)"
  have ps': "pygame_Surface (allocates e) (w, h + 6) True
      = Inr (new_surface (nat w) (nat (h + 6)) True)"
    and w0: "0 \<le> w"
    using ps unfolding w_def [symmetric] h_def [symmetric] pygame_Surface_Inr by simp_all
  have wh: "0 \<le> w" "0 \<le> h" using w0 h0 by (simp_all add: h_def)
  have eq: "hang e self = Inr (self\<lparr>self_surface := s2\<rparr>)"
    unfolding hang_def Let_def
    by (simp only: w_def [symmetric] h_def [symmetric] ps' ebind_Inr
          conn_def [symmetric] base_def [symmetric] s1_def [symmetric] s2_def [symmetric])
  have conn_sel: "get_width conn = 10" "get_height conn = 6" "srcalpha conn = False"
    "colorkey conn = None"
    by (simp_all add: conn_def)
  have conn_in: "inside conn i j \<longleftrightarrow> 0 \<le> i \<and> i < 10 \<and> 0 \<le> j \<and> j < 6" for i j
    by (simp add: inside_def conn_sel)
  have conn_px: "inside conn i j \<Longrightarrow> get_at conn i j = connector_color i" for i j
    unfolding conn_in unfolding conn_def by (rule connector_pixels) simp_all
  have dims: "get_width s2 = nat w" "get_height s2 = nat (h + 6)"
    by (simp_all add: s2_def s1_def base_def)
  have in_all: "inside base = inside s1" "inside s1 x y \<longleftrightarrow> 0 \<le> x \<and> x < w \<and> 0 \<le> y \<and> y < h + 6" for x y
    using wh by (auto simp add: s1_def base_def inside_def)
  have band: "get_at s2 x y = rope_band w x y" if y: "y < 6" for x y
  proof -
    have b: "get_at base x y = (0, 0, 0, 0)"
      using y by (simp add: base_def get_at_blit inside_def)
    have 1: "get_at s1 x y = (if inside s1 x y \<and> inside conn (x - 12) y
                then connector_color (x - 12) else (0, 0, 0, 0))"
      unfolding s1_def get_at_blit using b conn_px [of "x - 12" y]
      by (simp add: conn_sel s1_def [symmetric] in_all(1) [symmetric])
    have 2: "get_at s2 x y = (if inside s1 x y \<and> inside conn (x - (w - 22)) y
                then connector_color (x - (w - 22)) else get_at s1 x y)"
      unfolding s2_def get_at_blit using conn_px [of "x - (w - 22)" y]
      by (simp add: conn_sel)
    show ?thesis
      unfolding 2 1 in_all(2) conn_in rope_band_def using y wh by auto
  qed
  show ?thesis
    using eq dims band by (auto simp: w_def h_def)
qed

lemma hang_Inr:
  assumes "hang e self = Inr b"
  shows "\<exists>c. pygame_Surface (allocates e) (fst (self_size self), snd (self_size self) + 6) True
           = Inr c"
  using assms unfolding hang_def by (auto simp: ebind_eq_Inr)

lemma build_unfold:
  assumes sh: "has_four (self_shadow self)" and rc: "has_four (self_rounded_corners self)"
  shows "\<exists>body. get_width body = get_width (self_surface self)
           \<and> get_height body = get_height (self_surface self)
           \<and> build cls e self =
      ebind (if self_hanging self then hang e (self\<lparr>self_surface := body\<rparr>)
             else Inr (self\<lparr>self_surface := body\<rparr>))
        (\<lambda>self'. Inr (self'\<lparr>self_surface := blit (blend e) (self_surface self') (self_text self')
             (get_rect_center (self_text self')
                (text_center (self_size self') (self_hanging self') (self_symbol self')))\<rparr>))"
proof -
  obtain c1 where c1: "corner_at cls self 0 1 0 = Inr c1"
    using corner_at_returns [OF sh rc, of 0 1 0] by auto
  obtain c3 where c3: "corner_at cls self 0 2 1 = Inr c3"
    using corner_at_returns [OF sh rc, of 0 2 1] by auto
  obtain c7 where c7: "corner_at cls self 3 1 2 = Inr c7"
    using corner_at_returns [OF sh rc, of 3 1 2] by auto
  obtain c9 where c9: "corner_at cls self 3 2 3 = Inr c9"
    using corner_at_returns [OF sh rc, of 3 2 3] by auto
  obtain e2 where e2: "edge_at self (fst (self_size self) - 20) False False 0 = Inr e2"
    using edge_at_returns [OF sh, of 0] by (simp, blast)
  obtain e4 where e4: "edge_at self (snd (self_size self) - 16) True False 1 = Inr e4"
    using edge_at_returns [OF sh, of 1] by (simp, blast)
  obtain e6 where e6: "edge_at self (snd (self_size self) - 16) True True 2 = Inr e6"
    using edge_at_returns [OF sh, of 2] by (simp, blast)
  obtain e8 where e8: "edge_at self (fst (self_size self) - 20) False True 3 = Inr e8"
    using edge_at_returns [OF sh, of 3] by (simp, blast)
  define body where "body =
    blit (blend e) (blit (blend e) (blit (blend e) (blit (blend e)
      (blit (blend e) (blit (blend e) (blit (blend e) (blit (blend e)
        (draw_rect (self_surface self) (self_palette self ! 3)
           (4, 4, fst (self_size self) - 8, snd (self_size self) - 8))
        c1 (0, 0))
        (transform_flip c3 True False) (fst (self_size self) - 10, 0))
        (transform_flip c7 False True) (0, snd (self_size self) - 8))
        (transform_flip c9 True True) (fst (self_size self) - 10, snd (self_size self) - 8))
      e2 (10, 0)) e4 (0, 8)) e6 (fst (self_size self) - 6, 8)) e8 (10, snd (self_size self) - 6)"
  have bd: "get_width body = get_width (self_surface self)"
    "get_height body = get_height (self_surface self)"
    by (simp_all add: body_def)
  have eq: "build cls e self =
      ebind (if self_hanging self then hang e (self\<lparr>self_surface := body\<rparr>)
             else Inr (self\<lparr>self_surface := body\<rparr>))
        (\<lambda>self'. Inr (self'\<lparr>self_surface := blit (blend e) (self_surface self') (self_text self')
             (get_rect_center (self_text self')
                (text_center (self_size self') (self_hanging self') (self_symbol self')))\<rparr>))"
    unfolding build_def Let_def c1 c3 c7 c9 e2 e4 e6 e8 ebind_Inr body_def
    by simp
  show ?thesis using bd eq by blast
qed

lemma build_returns:
  assumes sh: "has_four (self_shadow self)" and rc: "has_four (self_rounded_corners self)"
    and h: "0 \<le> snd (self_size self)"
    and canvas: "self_hanging self \<longrightarrow>
      (\<exists>c. pygame_Surface (allocates e) (fst (self_size self), snd (self_size self) + 6) True
             = Inr c)"
  shows "\<exists>body s. build cls e self =
             Inr (self\<lparr>self_surface := blit (blend e) s (self_text self)
                    (get_rect_center (self_text self)
                       (text_center (self_size self) (self_hanging self) (self_symbol self)))\<rparr>)
           \<and> get_width body = get_width (self_surface self)
           \<and> get_height body = get_height (self_surface self)
           \<and> (if self_hanging self
               then get_width s = nat (fst (self_size self))
                  \<and> get_height s = nat (snd (self_size self) + 6)
                  \<and> (\<forall>x y. y < 6 \<longrightarrow> get_at s x y = rope_band (fst (self_size self)) x y)
               else s = body)"
proof -
  obtain body where bd: "get_width body = get_width (self_surface self)"
    "get_height body = get_height (self_surface self)"
    and eq: "build cls e self =
      ebind (if self_hanging self then hang e (self\<lparr>self_surface := body\<rparr>)
             else Inr (self\<lparr>self_surface := body\<rparr>))
        (\<lambda>self'. Inr (self'\<lparr>self_surface := blit (blend e) (self_surface self') (self_text self')
             (get_rect_center (self_text self')
                (text_center (self_size self') (self_hanging self') (self_symbol self')))\<rparr>))"
    using build_unfold [OF sh rc, of cls e] by blast
  show ?thesis
  proof (cases "self_hanging self")
    case False
    then show ?thesis unfolding eq using bd by (intro exI [of _ body]) simp
  next
    case True
    obtain s where s: "hang e (self\<lparr>self_surface := body\<rparr>) = Inr (self\<lparr>self_surface := s\<rparr>)"
      "get_width s = nat (fst (self_size self))"
      "get_height s = nat (snd (self_size self) + 6)"
      "\<forall>x y. y < 6 \<longrightarrow> get_at s x y = rope_band (fst (self_size self)) x y"
      using hang_returns [of e "self\<lparr>self_surface := body\<rparr>"] canvas True h by auto
    show ?thesis unfolding eq using True bd s
      by (intro exI [of _ body] exI [of _ s]) simp
  qed
qed

lemma ebind_InrE:
  assumes "ebind m f = Inr y"
  obtains x where "m = Inr x" "f x = Inr y"
  using assms by (auto simp: ebind_eq_Inr)

lemma getitem_3_has_four: "getitem v 3 = Inr b \<Longrightarrow> has_four v"
  by (cases v) (auto simp: has_four_def split: if_splits)

lemma corner_at_3_has_four:
  assumes "corner_at cls self 3 j 3 = Inr c"
  shows "has_four (self_shadow self) \<and> has_four (self_rounded_corners self)"
  using assms unfolding corner_at_def
  by (auto elim!: ebind_InrE dest: getitem_3_has_four)

lemma build_Inr_has_four:
  assumes "build cls e self = Inr b"
  shows "has_four (self_shadow self) \<and> has_four (self_rounded_corners self)"
proof -
  from assms obtain c9 where "corner_at cls self 3 2 3 = Inr c9"
    unfolding build_def Let_def by (elim ebind_InrE)
  then show ?thesis by (rule corner_at_3_has_four)
qed

lemma build_Inr_canvas:
  assumes b: "build cls e self = Inr b" and hg: "self_hanging self"
  shows "\<exists>c. pygame_Surface (allocates e) (fst (self_size self), snd (self_size self) + 6) True
           = Inr c"
proof -
  from build_Inr_has_four [OF b]
  have four: "has_four (self_shadow self)" "has_four (self_rounded_corners self)" by simp_all
  from build_unfold [OF four, of cls e] obtain body where
    "build cls e self =
      ebind (if self_hanging self then hang e (self\<lparr>self_surface := body\<rparr>)
             else Inr (self\<lparr>self_surface := body\<rparr>))
        (\<lambda>self'. Inr (self'\<lparr>self_surface := blit (blend e) (self_surface self') (self_text self')
             (get_rect_center (self_text self')
                (text_center (self_size self') (self_hanging self') (self_symbol self')))\<rparr>))"
    by blast
  with b hg have "ebind (hang e (self\<lparr>self_surface := body\<rparr>))
        (\<lambda>self'. Inr (self'\<lparr>self_surface := blit (blend e) (self_surface self') (self_text self')
             (get_rect_center (self_text self')
                (text_center (self_size self') (self_hanging self') (self_symbol self')))\<rparr>))
      = Inr b"
    by simp
  then obtain b' where "hang e (self\<lparr>self_surface := body\<rparr>) = Inr b'"
    by (elim ebind_InrE)
  from hang_Inr [OF this] show ?thesis by simp
qed

lemma get_at_blit_cong:
  assumes "get_width d = get_width d'" "get_height d = get_height d'"
    and "get_at d x y = get_at d' x y"
  shows "get_at (blit bl d s pos) x y = get_at (blit bl d' s pos) x y"
  using assms by (cases pos) (simp add: get_at_blit inside_def)

lemma RectButton_init_returns:
  assumes rc: "has_four rounded_corners" and sh: "has_four shadows"
    and body: "pygame_Surface (allocates e) (w, if hanging then h - 6 else h) True = Inr c0"
    and canvas: "hanging \<longrightarrow> (\<exists>c. pygame_Surface (allocates e) (w, h) True = Inr c)"
    and bt: "build_text e text = Inr (label, symbol)"
  shows "\<exists>b. RectButton_init cls e (w, h) text hover unavailable rounded_corners shadows hanging
               = Inr b
           \<and> self_size b = (w, if hanging then h - 6 else h)
           \<and> self_palette b = (if unavailable then Palette_unavailable
                                else if hover then Palette_hover else Palette_palette)
           \<and> get_width (self_surface b) = nat w
           \<and> get_height (self_surface b) = nat h
           \<and> (\<exists>canvas. self_surface b =
                 blit (blend e) canvas label
                   (get_rect_center label
                      (text_center (w, if hanging then h - 6 else h) hanging symbol)))
           \<and> (hanging \<longrightarrow> (\<forall>x y. y < 6 \<longrightarrow> get_at (self_surface b) x y =
                 get_at (blit (blend e) (rope_canvas (w, h)) label
                   (get_rect_center label (text_center (w, h - 6) True symbol))) x y))"
proof -
  define h' where "h' = (if hanging then h - 6 else h)"
  have c0: "c0 = new_surface (nat w) (nat h') True" and w: "0 \<le> w" and h': "0 \<le> h'"
    using body unfolding h'_def [symmetric] pygame_Surface_Inr by simp_all
  have h: "0 \<le> h" using h' by (simp add: h'_def split: if_splits)
  define self where "self =
    \<lparr>self_size = (w, h'), self_surface = new_surface (nat w) (nat h') True, self_hover = hover,
     self_unavailable = unavailable, self_hanging = hanging,
     self_symbol = symbol,
     self_palette = (if unavailable then Palette_unavailable
                     else if hover then Palette_hover else Palette_palette),
     self_rounded_corners = rounded_corners, self_shadow = shadows,
     self_text = label\<rparr>"
  have ps: "pygame_Surface (allocates e) (if hanging then (fst (w, h), snd (w, h) - 6)
                             else (fst (w, h), snd (w, h))) True
      = Inr (new_surface (nat w) (nat h') True)"
    using body c0 by (simp add: h'_def split: if_splits)
  have eq: "RectButton_init cls e (w, h) text hover unavailable rounded_corners shadows hanging
      = build cls e self"
    unfolding RectButton_init_def Let_def ps bt ebind_Inr self_def
    by (simp add: h'_def)
  have sel: "self_shadow self = shadows" "self_rounded_corners self = rounded_corners"
    "self_size self = (w, h')" "self_hanging self = hanging"
    "self_text self = label" "self_symbol self = symbol"
    "get_width (self_surface self) = nat w" "get_height (self_surface self) = nat h'"
    by (simp_all add: self_def)
  have cv: "self_hanging self \<longrightarrow>
      (\<exists>c. pygame_Surface (allocates e) (fst (self_size self), snd (self_size self) + 6) True
             = Inr c)"
    using canvas unfolding sel by (simp add: h'_def)
  have h0: "0 \<le> snd (self_size self)" unfolding sel using h' by simp
  obtain body s where b: "build cls e self =
             Inr (self\<lparr>self_surface := blit (blend e) s (self_text self)
                    (get_rect_center (self_text self)
                       (text_center (self_size self) (self_hanging self) (self_symbol self)))\<rparr>)"
     "get_width body = get_width (self_surface self)"
     "get_height body = get_height (self_surface self)"
     "if self_hanging self
               then get_width s = nat (fst (self_size self))
                  \<and> get_height s = nat (snd (self_size self) + 6)
                  \<and> (\<forall>x y. y < 6 \<longrightarrow> get_at s x y = rope_band (fst (self_size self)) x y)
               else s = body"
    using build_returns [of self e cls] rc sh h0 cv unfolding sel by auto
  have dims: "get_width s = nat w" "get_height s = nat h"
    using b(2-4) unfolding sel h'_def by (auto split: if_splits)
  have band: "get_at (blit (blend e) s t pos) x y = get_at (blit (blend e) (rope_canvas (w, h)) t pos) x y"
    if "hanging" "y < 6" for x y t pos
  proof (rule get_at_blit_cong)
    show "get_width s = get_width (rope_canvas (w, h))" "get_height s = get_height (rope_canvas (w, h))"
      using dims by (simp_all add: rope_canvas_def)
    show "get_at s x y = get_at (rope_canvas (w, h)) x y"
      using b(4) that unfolding sel by (simp add: rope_canvas_def)
  qed
  define B where "B = self\<lparr>self_surface := blit (blend e) s (self_text self)
                    (get_rect_center (self_text self)
                       (text_center (self_size self) (self_hanging self) (self_symbol self)))\<rparr>"
  have r: "RectButton_init cls e (w, h) text hover unavailable rounded_corners shadows hanging
             = Inr B"
    using eq b(1) by (simp add: B_def)
  have f1: "self_size B = (w, if hanging then h - 6 else h)"
    by (simp add: B_def self_def h'_def)
  have f2: "self_palette B = (if unavailable then Palette_unavailable
                                else if hover then Palette_hover else Palette_palette)"
    by (simp add: B_def self_def)
  have f3: "get_width (self_surface B) = nat w" "get_height (self_surface B) = nat h"
    by (simp_all add: B_def dims)
  have f4: "self_surface B = blit (blend e) s label
                   (get_rect_center label
                      (text_center (w, if hanging then h - 6 else h) hanging symbol))"
    by (simp add: B_def sel h'_def)
  have f5: "hanging \<longrightarrow> (\<forall>x y. y < 6 \<longrightarrow> get_at (self_surface B) x y =
                 get_at (blit (blend e) (rope_canvas (w, h)) label
                   (get_rect_center label (text_center (w, h - 6) True symbol))) x y)"
    unfolding f4 using band by simp
  show ?thesis
    using r f1 f2 f3 f4 f5 by blast
qed

lemma RectButton_init_Inr:
  assumes "RectButton_init cls e (w, h) text hover unavailable rounded_corners shadows hanging
             = Inr b"
  shows "has_four rounded_corners \<and> has_four shadows
           \<and> (\<exists>c0. pygame_Surface (allocates e) (w, if hanging then h - 6 else h) True = Inr c0)
           \<and> (hanging \<longrightarrow> (\<exists>c. pygame_Surface (allocates e) (w, h) True = Inr c))
           \<and> (\<exists>label symbol. build_text e text = Inr (label, symbol))"
proof -
  define h' where "h' = (if hanging then h - 6 else h)"
  have sz: "(if hanging then (fst (w, h), snd (w, h) - 6) else (fst (w, h), snd (w, h)))
      = (w, h')"
    by (simp add: h'_def)
  from assms obtain c0 built where
    ps: "pygame_Surface (allocates e) (w, h') True = Inr c0"
    and bt: "build_text e text = Inr built"
    and b: "build cls e
                  \<lparr>self_size = (w, h'), self_surface = c0, self_hover = hover,
                   self_unavailable = unavailable, self_hanging = hanging,
                   self_symbol = snd built,
                   self_palette = (if unavailable then Palette_unavailable
                          else if hover then Palette_hover
                          else Palette_palette),
                   self_rounded_corners = rounded_corners, self_shadow = shadows,
                   self_text = fst built\<rparr> = Inr b"
    unfolding RectButton_init_def Let_def sz ebind_eq_Inr by blast
  have 1: "has_four rounded_corners \<and> has_four shadows"
    using build_Inr_has_four [OF b] by simp
  have 2: "\<exists>c0. pygame_Surface (allocates e) (w, if hanging then h - 6 else h) True = Inr c0"
    using ps by (auto simp: h'_def)
  have 3: "hanging \<longrightarrow> (\<exists>c. pygame_Surface (allocates e) (w, h) True = Inr c)"
    using build_Inr_canvas [OF b] by (auto simp: h'_def)
  have 4: "\<exists>label symbol. build_text e text = Inr (label, symbol)"
    using bt by (cases built) auto
  show ?thesis using 1 2 3 4 by blast
qed

lemma check_shape_simps [simp]:
  "check_shape (PyBool b) = Inr (PyList [b, b, b, b])"
  "check_shape (PyList bs) = Inr (PyList bs)"
  "check_shape (PyTuple bs) = (if length bs \<noteq> 4 then Inl ValueError else Inr (PyTuple bs))"
  "check_shape (PyStr s) = (if length s \<noteq> 4 then Inl ValueError else Inr (PyStr s))"
  "check_shape PyNone = Inl TypeError"
  by (simp_all add: check_shape_def)


lemma Button_new_returns:
  assumes "check_shape rounded_corners = Inr rc'" "has_four rc'"
    and "check_shape shadows = Inr sh'" "has_four sh'"
    and "pygame_Surface (allocates e) (w, if hanging then h - 6 else h) True = Inr c0"
    and "hanging \<longrightarrow> (\<exists>c. pygame_Surface (allocates e) (w, h) True = Inr c)"
    and "build_text e text = Inr (label, symbol)"
  shows "\<exists>s. Button_new e (w, h) text hover unavailable rounded_corners shadows hanging = Inr s
           \<and> get_width s = nat w \<and> get_height s = nat h
           \<and> (hanging \<longrightarrow> (\<forall>x y. y < 6 \<longrightarrow> get_at s x y =
                 get_at (blit (blend e) (rope_canvas (w, h)) label
                   (get_rect_center label (text_center (w, h - 6) True symbol))) x y))"
proof -
  define cls where "cls = (if w = h then SquareButtonClass else RectButtonClass)"
  have eq: "Button_new e (w, h) text hover unavailable rounded_corners shadows hanging
      = ebind (RectButton_init cls e (w, h) text hover unavailable rc' sh' hanging)
          (\<lambda>button. Inr (self_surface button))"
    unfolding Button_new_def assms(1,3) ebind_Inr cls_def by simp
  from RectButton_init_returns [OF assms(2,4,5,6,7), of cls hover unavailable]
  show ?thesis unfolding eq by auto
qed

lemma Button_new_Inr:
  assumes "Button_new e (w, h) text hover unavailable rounded_corners shadows hanging = Inr s"
  shows "\<exists>rc' sh' c0 label symbol. check_shape rounded_corners = Inr rc' \<and> has_four rc'
           \<and> check_shape shadows = Inr sh' \<and> has_four sh'
           \<and> pygame_Surface (allocates e) (w, if hanging then h - 6 else h) True = Inr c0
           \<and> (hanging \<longrightarrow> (\<exists>c. pygame_Surface (allocates e) (w, h) True = Inr c))
           \<and> build_text e text = Inr (label, symbol)"
proof -
  from assms obtain rc' sh' cls b where
    "check_shape rounded_corners = Inr rc'" "check_shape shadows = Inr sh'"
    "RectButton_init cls e (w, h) text hover unavailable rc' sh' hanging = Inr b"
    unfolding Button_new_def by (elim ebind_InrE) (auto split: if_splits)
  with RectButton_init_Inr [of cls e w h "text" hover unavailable rc' sh' hanging b]
  show ?thesis by auto
qed

lemma blit_row_sel [simp]:
  "get_width (blit_row e s ss c) = get_width s"
  "get_height (blit_row e s ss c) = get_height s"
  "srcalpha (blit_row e s ss c) = srcalpha s"
  by (induction ss arbitrary: s c) simp_all

lemma blit_lines_sel [simp]:
  "get_width (blit_lines e s w ts c) = get_width s"
  "get_height (blit_lines e s w ts c) = get_height s"
  "srcalpha (blit_lines e s w ts c) = srcalpha s"
  by (induction ts arbitrary: s c) simp_all

lemma test_env_sel [simp]:
  "image_load test_env path =
     \<lparr>get_width = 16, get_height = 16, srcalpha = True, colorkey = None,
      get_at = (\<lambda>x y. (nat x + 1, nat y + 1, length path, 255))\<rparr>"
  "FONT_render test_env item =
     (if CHR 0x00 \<in> set item then Inl ValueError
      else Inr \<lparr>get_width = 8 * length item, get_height = 16, srcalpha = True,
                colorkey = None, get_at = (\<lambda>x y. (nat x + 1, nat y + 1, 0, 255))\<rparr>)"
  "blend test_env p q = (if snd (snd (snd p)) = 0 then q else p)"
  "allocates test_env width height = (width \<le> 4096 \<and> height \<le> 4096)"
  "styles_round test_env = Map.empty"
  "styles_hanging test_env = [''#hanging_button'' \<mapsto> True]"
  "styles_shadow test_env = Map.empty"
  by (simp_all add: test_env_def)


lemma pygame_Surface_test_env:
  assumes "0 \<le> w" "w \<le> 4096" "0 \<le> h" "h \<le> 4096"
  shows "pygame_Surface (allocates test_env) (w, h) a = Inr (new_surface (nat w) (nat h) a)"
proof -
  have "nat w \<le> 4096" "nat h \<le> 4096" using assms by linarith+
  then show ?thesis using assms by (simp add: pygame_Surface_def c_int_def)
qed

lemma Symbol_custom_Save: "Symbol_custom test_env ''Save'' = None"
  by (simp add: Symbol_custom_def)

lemma format_line_Save: "format_line ''Save'' = [''Save'']"
  by (simp add: format_line_def format_step_def append_last_def)

lemma format_line_DICE: "format_line ''{DICE}'' = [''{DICE}'']"
  by (simp add: format_line_def format_step_def append_last_def)

lemma format_line_mixed: "format_line ''a{B}c}'' = [''a'', ''{B}'', ''c}'']"
  by (simp add: format_line_def format_step_def append_last_def)

lemma build_text_Save:
  "\<exists>label. build_text test_env ''Save'' = Inr (label, False)
     \<and> get_width label = 32 \<and> get_height label = 16 \<and> srcalpha label
     \<and> get_at label 0 0 = (1, 1, 0, 255) \<and> get_at label 1 0 = (2, 1, 0, 255)"
  by (simp add: build_text_def Symbol_custom_Save line_surface_def format_line_Save
      render_item_def Let_def get_at_blit inside_def py_int_def)

lemma build_text_NUL: "build_text test_env [CHR 0x00] = Inl ValueError"
  by (simp add: build_text_def Symbol_custom_def line_surface_def format_line_def
      format_step_def append_last_def render_item_def)



lemma palettes_distinct:
  "Palette_unavailable \<noteq> Palette_hover" "Palette_unavailable \<noteq> Palette_palette"
  "Palette_hover \<noteq> Palette_palette"
  by (simp_all add: Palette_unavailable_def Palette_hover_def Palette_palette_def)







lemma edge_eq:
  "edge p l r f sh =
     (let odd' = (((0 < l \<and> l mod 4 = 3) \<or> (l < 0 \<and> l mod 4 = 1)) \<and> \<not> r);
          L = (if (if odd' then l + 1 else l) \<le> 0 then 0 else (if odd' then l + 1 else l));
          inner = (if \<not> odd' then L else L - 1);
          strip = draw_rect (draw_rect (draw_rect (new_surface (nat L) 6 True)
                    (p ! 1) (0, 0, L, 2)) (p ! 2) (0, 2, inner, 2))
                    (if sh then p ! 4 else p ! 3) (0, 4, inner, 2)
      in if r \<and> f then transform_flip (transform_rotate90 strip) True False
         else if r then transform_rotate90 strip
         else if f then transform_flip strip False True
         else strip)"
  unfolding edge_def Let_def half_test by (simp cong: if_cong)




lemma edge_length_5_unpadded:
  "get_width (edge Palette_palette 5 False False False) = 5
   \<and> get_width (edge Palette_palette 7 False False False) = 8"
  by (simp add: edge_eq Let_def)

lemma load_button_filter:
  "load_button storage sz text hover unavailable rc sh hg =
     (case filter (\<lambda>item. sz = item_size item \<and> text = item_text item \<and>
        hover = item_hover item \<and> unavailable = item_unavailable item \<and>
        rc = item_rounded_corners item \<and> sh = item_shadows item \<and> hg = item_hanging item)
        storage of
        [] \<Rightarrow> None
      | found # others \<Rightarrow> Some found)"
  unfolding load_button_def Let_def by (simp split: list.splits)

lemma load_button_append:
  "load_button (storage @ [it]) sz text hover unavailable rc sh hg =
     (case load_button storage sz text hover unavailable rc sh hg of
        Some found \<Rightarrow> Some found
      | None \<Rightarrow>
          (if sz = item_size it \<and> text = item_text it \<and> hover = item_hover it \<and>
              unavailable = item_unavailable it \<and> rc = item_rounded_corners it \<and>
              sh = item_shadows it \<and> hg = item_hanging it
           then Some it else None))"
proof -
  define P :: "cache_item \<Rightarrow> bool" where "P = (\<lambda>item. sz = item_size item \<and> text = item_text item \<and>
        hover = item_hover item \<and> unavailable = item_unavailable item \<and>
        rc = item_rounded_corners item \<and> sh = item_shadows item \<and> hg = item_hanging item)"
  have P: "P it = (sz = item_size it \<and> text = item_text it \<and> hover = item_hover it \<and>
              unavailable = item_unavailable it \<and> rc = item_rounded_corners it \<and>
              sh = item_shadows it \<and> hg = item_hanging it)"
    by (simp add: P_def)
  show ?thesis
    unfolding load_button_filter P_def [symmetric] P [symmetric] filter_append
    by (cases "filter P storage") simp_all
qed

lemma load_button_None:
  "load_button storage sz text hover unavailable rc sh hg = None \<longleftrightarrow>
     (\<forall>item \<in> set storage.
        item_size item \<noteq> sz \<or> item_text item \<noteq> text \<or> item_hover item \<noteq> hover \<or>
        item_unavailable item \<noteq> unavailable \<or> item_rounded_corners item \<noteq> rc \<or>
        item_shadows item \<noteq> sh \<or> item_hanging item \<noteq> hg)"
proof -
  define P :: "cache_item \<Rightarrow> bool" where "P = (\<lambda>item. sz = item_size item \<and> text = item_text item \<and>
        hover = item_hover item \<and> unavailable = item_unavailable item \<and>
        rc = item_rounded_corners item \<and> sh = item_shadows item \<and> hg = item_hanging item)"
  have "load_button storage sz text hover unavailable rc sh hg = None \<longleftrightarrow> filter P storage = []"
    unfolding load_button_filter P_def [symmetric] by (simp split: list.splits)
  also have "\<dots> \<longleftrightarrow> (\<forall>item \<in> set storage. \<not> P item)"
    by (simp add: filter_empty_conv)
  also have "\<dots> \<longleftrightarrow> (\<forall>item \<in> set storage.
        item_size item \<noteq> sz \<or> item_text item \<noteq> text \<or> item_hover item \<noteq> hover \<or>
        item_unavailable item \<noteq> unavailable \<or> item_rounded_corners item \<noteq> rc \<or>
        item_shadows item \<noteq> sh \<or> item_hanging item \<noteq> hg)"
    unfolding P_def by (intro ball_cong refl) auto
  finally show ?thesis .
qed

lemma style_hanging_button:
  "check_round test_env (Some ''#hanging_button'') = PyList [True, True, True, True]"
  "check_shadow test_env (Some ''#hanging_button'') = PyList [True, True, False, False]"
  "check_hanging test_env (Some ''#hanging_button'') = True"
  "check_round test_env None = PyList [True, True, True, True]"
  "check_shadow test_env None = PyList [True, True, False, False]"
  "check_hanging test_env None = False"
  by (simp_all add: check_round_def check_shadow_def check_hanging_def dict_get_def)

lemma Button_new_size_out_of_range:
  "Button_new test_env (2147483648, 30) ''Save'' False False
     (PyList [True, True, True, True]) (PyList [True, True, False, False]) False
   = Inl PygameError"
  by (simp add: Button_new_def RectButton_init_def pygame_Surface_def c_int_def)

lemma Button_new_NUL_label:
  "Button_new test_env (60, 30) [CHR 0x00] False False
     (PyList [True, True, True, True]) (PyList [True, True, False, False]) False
   = Inl ValueError"
  by (simp add: Button_new_def RectButton_init_def pygame_Surface_test_env build_text_NUL)

section \<open>The claims\<close>

subsection \<open>C1: the lookup of UIButton.__init__\<close>

text \<open>
  Claim C1 says that \<open>UIButton.__init__\<close> looks the cache up under the same seven values
  (size, text, hover, unavailable, rounded corners, shadows, hanging) under which it
  stores the surface on a miss. The code does not: its \<open>load_button\<close> call passes size and
  text only, so the lookup runs under the default style, while \<open>store_button\<close> is given
  the resolved style. Evaluated on a button whose style hangs: building it stores an
  item, and building it again misses that item and stores a second one; and when a
  plain button of the same size and text was built first, the hanging button is handed
  the plain button's sprite. \<open>CatButton.on_hovered\<close>, which passes the style to
  \<open>load_button\<close>, finds on the second call what it stored on the first.
\<close>

theorem UIButton_lookup_ignores_style:
  "(\<exists>sprite storage sprite' storage'.
      UIButton_init test_env [] (60, 30) ''Save'' (Some ''#hanging_button'')
        = Inr (sprite, storage)
      \<and> length storage = 1
      \<and> UIButton_init test_env storage (60, 30) ''Save'' (Some ''#hanging_button'')
        = Inr (sprite', storage')
      \<and> length storage' = 2)
   \<and> (\<exists>plain storage.
      UIButton_init test_env [] (60, 30) ''Save'' None = Inr (plain, storage)
      \<and> UIButton_init test_env storage (60, 30) ''Save'' (Some ''#hanging_button'')
        = Inr (plain, storage))
   \<and> (\<exists>sprite storage.
      CatButton_on_hovered test_env [] (60, 30) ''Save''
        (PyList [True, True, True, True]) True (PyList [True, True, False, False])
        = Inr (sprite, storage)
      \<and> length storage = 1
      \<and> CatButton_on_hovered test_env storage (60, 30) ''Save''
        (PyList [True, True, True, True]) True (PyList [True, True, False, False])
        = Inr (sprite, storage))"
proof -
  have four: "has_four (PyList [True, True, True, True])"
    "has_four (PyList [True, True, False, False])"
    by (simp_all add: has_four_def)
  obtain label where label: "build_text test_env ''Save'' = Inr (label, False)"
    using build_text_Save by blast
  have new: "\<exists>s. Button_new test_env (60, 30) ''Save'' hover False
      (PyList [True, True, True, True]) (PyList [True, True, False, False]) hanging = Inr s"
    for hover hanging
    using Button_new_returns [where rounded_corners = "PyList [True, True, True, True]"
        and rc' = "PyList [True, True, True, True]"
        and shadows = "PyList [True, True, False, False]"
        and sh' = "PyList [True, True, False, False]" and w = 60 and h = 30
        and hanging = hanging and e = test_env and hover = hover and unavailable = False,
        OF _ four(1) _ four(2) _ _ label]
    by (cases hanging) (auto simp: pygame_Surface_test_env)
  obtain hanging where hanging: "Button_new test_env (60, 30) ''Save'' False False
      (PyList [True, True, True, True]) (PyList [True, True, False, False]) True = Inr hanging"
    using new [of False True] by blast
  obtain plain where plain: "Button_new test_env (60, 30) ''Save'' False False
      (PyList [True, True, True, True]) (PyList [True, True, False, False]) False = Inr plain"
    using new [of False False] by blast
  obtain hovered where hovered: "Button_new test_env (60, 30) ''Save'' True False
      (PyList [True, True, True, True]) (PyList [True, True, False, False]) True = Inr hovered"
    using new [of True True] by blast
  have 1: "\<exists>sprite storage sprite' storage'.
      UIButton_init test_env [] (60, 30) ''Save'' (Some ''#hanging_button'')
        = Inr (sprite, storage)
      \<and> length storage = 1
      \<and> UIButton_init test_env storage (60, 30) ''Save'' (Some ''#hanging_button'')
        = Inr (sprite', storage')
      \<and> length storage' = 2"
    by (simp add: UIButton_init_def style_hanging_button load_button_def store_button_def hanging Let_def)
  have 2: "\<exists>plain storage.
      UIButton_init test_env [] (60, 30) ''Save'' None = Inr (plain, storage)
      \<and> UIButton_init test_env storage (60, 30) ''Save'' (Some ''#hanging_button'')
        = Inr (plain, storage)"
    by (simp add: UIButton_init_def style_hanging_button load_button_def store_button_def plain Let_def)
  have 3: "\<exists>sprite storage.
      CatButton_on_hovered test_env [] (60, 30) ''Save''
        (PyList [True, True, True, True]) True (PyList [True, True, False, False])
        = Inr (sprite, storage)
      \<and> length storage = 1
      \<and> CatButton_on_hovered test_env storage (60, 30) ''Save''
        (PyList [True, True, True, True]) True (PyList [True, True, False, False])
        = Inr (sprite, storage)"
    by (simp add: CatButton_on_hovered_def load_button_def store_button_def hovered Let_def)
  show ?thesis using 1 2 3 by blast
qed

subsection \<open>C2: the shape check of Button.new\<close>

text \<open>
  Claim C2 says that \<open>Button.new\<close> raises an invalid-argument failure, before drawing, for
  every \<open>rounded_corners\<close> or \<open>shadows\<close> that is neither a bool nor a list of four. The
  code's test is \<open>not isinstance(v, list) and len(v) != 4\<close>, which no list fails: a list of
  five is accepted and a surface is returned; a list of three is accepted too and the
  construction ends in \<open>IndexError\<close> at the fourth corner, after the fill and three corners
  were drawn. A tuple of three does raise \<open>ValueError\<close>.
\<close>

theorem Button_new_accepts_bad_lists:
  "(\<exists>s. Button_new test_env (60, 30) ''Save'' False False
          (PyList [True, True, True, True, True]) (PyList [True, True, False, False]) False
        = Inr s)
   \<and> Button_new test_env (60, 30) ''Save'' False False
        (PyList [True, True, True]) (PyList [True, True, False, False]) False
      = Inl IndexError
   \<and> Button_new test_env (60, 30) ''Save'' False False
        (PyTuple [True, True, True]) (PyList [True, True, False, False]) False
      = Inl ValueError"
proof -
  have 1: "\<exists>s. Button_new test_env (60, 30) ''Save'' False False
          (PyList [True, True, True, True, True]) (PyList [True, True, False, False]) False
        = Inr s"
  proof -
    obtain label where label: "build_text test_env ''Save'' = Inr (label, False)"
      using build_text_Save by blast
    show ?thesis
      using Button_new_returns [where rounded_corners = "PyList [True, True, True, True, True]"
          and rc' = "PyList [True, True, True, True, True]"
          and shadows = "PyList [True, True, False, False]"
          and sh' = "PyList [True, True, False, False]" and w = 60 and h = 30
          and hanging = False and e = test_env and hover = False and unavailable = False,
          OF _ _ _ _ _ _ label]
      by (auto simp: has_four_def pygame_Surface_test_env)
  qed
  have 2: "Button_new test_env (60, 30) ''Save'' False False
        (PyList [True, True, True]) (PyList [True, True, False, False]) False
      = Inl IndexError"
  proof -
    obtain label where label: "build_text test_env ''Save'' = Inr (label, False)"
      using build_text_Save by blast
    show ?thesis
      by (simp add: Button_new_def RectButton_init_def pygame_Surface_test_env label build_def
          corner_at_def Let_def)
  qed
  have 3: "Button_new test_env (60, 30) ''Save'' False False
        (PyTuple [True, True, True]) (PyList [True, True, False, False]) False
      = Inl ValueError"
    by (simp add: Button_new_def)
  show ?thesis using 1 2 3 by blast
qed

subsection \<open>C3: the size of the surface\<close>




subsection \<open>C4: storing and looking up\<close>

text \<open>
  Claim C4, amended: \<open>store_button\<close> returns the surface it was given. After it, a lookup
  under the same seven values returns the item that was stored first under them: the one
  found before the store when there was one, and otherwise the new item, whose surface is
  the one just stored. A lookup under values that differ from every stored item in at
  least one of the seven returns the absent value.
\<close>

theorem cache_store_lookup:
  "fst (store_button storage surface sz text hover unavailable rc sh hg) = surface
   \<and> load_button (snd (store_button storage surface sz text hover unavailable rc sh hg))
        sz text hover unavailable rc sh hg =
       (case load_button storage sz text hover unavailable rc sh hg of
          Some found \<Rightarrow> Some found
        | None \<Rightarrow> Some \<lparr>item_surface = surface, item_size = sz, item_text = text,
                         item_hover = hover, item_unavailable = unavailable,
                         item_rounded_corners = rc, item_shadows = sh, item_hanging = hg\<rparr>)
   \<and> (load_button storage sz text hover unavailable rc sh hg = None \<longrightarrow>
        map_option item_surface
          (load_button (snd (store_button storage surface sz text hover unavailable rc sh hg))
             sz text hover unavailable rc sh hg) = Some surface)
   \<and> ((\<forall>item \<in> set storage.
          item_size item \<noteq> sz' \<or> item_text item \<noteq> text' \<or> item_hover item \<noteq> hover' \<or>
          item_unavailable item \<noteq> unavailable' \<or> item_rounded_corners item \<noteq> rc' \<or>
          item_shadows item \<noteq> sh' \<or> item_hanging item \<noteq> hg') \<longrightarrow>
        load_button storage sz' text' hover' unavailable' rc' sh' hg' = None)"
proof -
  have 1: "fst (store_button storage surface sz text hover unavailable rc sh hg) = surface"
    by (simp add: store_button_def)
  have 2: "load_button (snd (store_button storage surface sz text hover unavailable rc sh hg))
        sz text hover unavailable rc sh hg =
       (case load_button storage sz text hover unavailable rc sh hg of
          Some found \<Rightarrow> Some found
        | None \<Rightarrow> Some \<lparr>item_surface = surface, item_size = sz, item_text = text,
                         item_hover = hover, item_unavailable = unavailable,
                         item_rounded_corners = rc, item_shadows = sh, item_hanging = hg\<rparr>)"
    by (simp add: store_button_def load_button_append)
  have 3: "map_option item_surface
          (load_button (snd (store_button storage surface sz text hover unavailable rc sh hg))
             sz text hover unavailable rc sh hg) = Some surface"
    if "load_button storage sz text hover unavailable rc sh hg = None"
    unfolding 2 that by simp
  have 4: "load_button storage sz' text' hover' unavailable' rc' sh' hg' = None"
    if "\<forall>item \<in> set storage.
          item_size item \<noteq> sz' \<or> item_text item \<noteq> text' \<or> item_hover item \<noteq> hover' \<or>
          item_unavailable item \<noteq> unavailable' \<or> item_rounded_corners item \<noteq> rc' \<or>
          item_shadows item \<noteq> sh' \<or> item_hanging item \<noteq> hg'"
    using that unfolding load_button_None .
  show ?thesis using 1 2 3 4 by blast
qed

text \<open>
  The theorem at an empty storage: what was stored is found, and the same values with
  \<open>hover\<close> flipped are not.
\<close>

theorem cache_store_lookup_witness:
  "map_option item_surface
     (load_button (snd (store_button [] (new_surface 1 1 True) (60, 30) ''Save'' False False
          (PyList [True, True, True, True]) (PyList [True, True, False, False]) False))
        (60, 30) ''Save'' False False
        (PyList [True, True, True, True]) (PyList [True, True, False, False]) False)
     = Some (new_surface 1 1 True)
   \<and> load_button (snd (store_button [] (new_surface 1 1 True) (60, 30) ''Save'' False False
          (PyList [True, True, True, True]) (PyList [True, True, False, False]) False))
        (60, 30) ''Save'' True False
        (PyList [True, True, True, True]) (PyList [True, True, False, False]) False
     = None"
  using cache_store_lookup [of "[]" "new_surface 1 1 True" "(60, 30)" "''Save''" False False
      "PyList [True, True, True, True]" "PyList [True, True, False, False]" False]
    cache_store_lookup [of
      "snd (store_button [] (new_surface 1 1 True) (60, 30) ''Save'' False False
          (PyList [True, True, True, True]) (PyList [True, True, False, False]) False)"
      "new_surface 1 1 True" "(60, 30)" "''Save''" False False
      "PyList [True, True, True, True]" "PyList [True, True, False, False]" False
      "(60, 30)" "''Save''" True False
      "PyList [True, True, True, True]" "PyList [True, True, False, False]" False]
  by (simp add: load_button_def store_button_def)

text \<open>
  The claim as stated, for every descriptor and image, fails when the descriptor is
  already stored with another image: the lookup returns the earlier image.
\<close>

theorem cache_store_lookup_counterexample:
  "map_option item_surface
     (load_button
        (snd (store_button
           (snd (store_button [] (new_surface 1 1 True) (60, 30) ''Save'' False False
              (PyList [True, True, True, True]) (PyList [True, True, False, False]) False))
           (new_surface 2 2 True) (60, 30) ''Save'' False False
           (PyList [True, True, True, True]) (PyList [True, True, False, False]) False))
        (60, 30) ''Save'' False False
        (PyList [True, True, True, True]) (PyList [True, True, False, False]) False)
     = Some (new_surface 1 1 True)
   \<and> new_surface 1 1 True \<noteq> new_surface 2 2 True"
  by (simp add: load_button_def store_button_def new_surface_def)

subsection \<open>C5: where the text is placed\<close>




subsection \<open>C6: the edge strips\<close>




subsection \<open>C7: a text that is one symbol\<close>

text \<open>
  Claim C7: for every text that is a key of the symbol table, \<open>_build_text\<close> returns the
  table's image itself and sets \<open>self.symbol\<close>; so it does for \<open>{DICE}\<close>, whose image is the
  one loaded from \<open>random_dice.png\<close>. Laid out as a line of text the same label would give
  a surface four pixels higher.
\<close>

theorem symbol_short_circuit:
  "(Symbol_custom e text = Some symbol \<longrightarrow> build_text e text = Inr (symbol, True))
   \<and> build_text e ''{DICE}''
       = Inr (Symbol_load e ''resources/images/symbols/random_dice.png'', True)
   \<and> (\<exists>line. line_surface e ''{DICE}'' = Inr line
         \<and> get_height line
             = get_height (Symbol_load e ''resources/images/symbols/random_dice.png'') + 4)"
proof -
  have d: "Symbol_custom e ''{DICE}''
      = Some (Symbol_load e ''resources/images/symbols/random_dice.png'')"
    by (simp add: Symbol_custom_def)
  show ?thesis
    by (simp add: build_text_def d line_surface_def format_line_DICE render_item_def Let_def)
qed

text \<open>The theorem at the text \<open>{MEDIATION}\<close>.\<close>

theorem symbol_short_circuit_witness:
  "build_text test_env ''{MEDIATION}''
     = Inr (Symbol_load test_env ''resources/images/symbols/mediation.png'', True)"
proof -
  have "Symbol_custom test_env ''{MEDIATION}''
      = Some (Symbol_load test_env ''resources/images/symbols/mediation.png'')"
    by (simp add: Symbol_custom_def)
  with symbol_short_circuit [of test_env "''{MEDIATION}''"
      "Symbol_load test_env ''resources/images/symbols/mediation.png''"]
  show ?thesis by simp
qed

subsection \<open>C8: recolouring a symbol\<close>

text \<open>
  Claim C8: replacing opaque black by an accent colour twice gives the same image as
  replacing it once, for every accent colour (opaque black included); the pass rewrites
  the pixels of the image that are opaque black and leaves every other pixel as it is;
  and an image that \<open>_Symbol.load\<close> returned is unchanged by the pass.
\<close>

theorem glyph_recolor_idempotent:
  "PixelArray_replace (PixelArray_replace s (0, 0, 0, 255) accent) (0, 0, 0, 255) accent
     = PixelArray_replace s (0, 0, 0, 255) accent
   \<and> get_at (PixelArray_replace s (0, 0, 0, 255) accent) x y
     = (if inside s x y \<and> get_at s x y = (0, 0, 0, 255) then accent else get_at s x y)
   \<and> PixelArray_replace (Symbol_load e path) (0, 0, 0, 255) Symbol_color = Symbol_load e path"
  by (simp add: PixelArray_replace_idem Symbol_load_def) (simp add: PixelArray_replace_def)

subsection \<open>C9: the palette of a button\<close>

text \<open>
  Claim C9: a button that was built has the unavailable palette exactly when
  \<open>unavailable\<close> is set, the hover palette exactly when \<open>hover\<close> is set and \<open>unavailable\<close> is
  not, and the default palette exactly when neither is set.
\<close>

theorem palette_precedence:
  assumes "RectButton_init cls e size' text hover unavailable rounded_corners shadows hanging
             = Inr b"
  shows "(self_palette b = Palette_unavailable) = unavailable
       \<and> (self_palette b = Palette_hover) = (hover \<and> \<not> unavailable)
       \<and> (self_palette b = Palette_palette) = (\<not> hover \<and> \<not> unavailable)"
proof -
  obtain w h where sz: "size' = (w, h)" by (cases size')
  note init = assms [unfolded sz]
  from RectButton_init_Inr [OF init] obtain c0 label symbol where
    pre: "has_four rounded_corners" "has_four shadows"
      "pygame_Surface (allocates e) (w, if hanging then h - 6 else h) True = Inr c0"
      "hanging \<longrightarrow> (\<exists>c. pygame_Surface (allocates e) (w, h) True = Inr c)"
      "build_text e text = Inr (label, symbol)"
    by blast
  from RectButton_init_returns [OF pre, of cls hover unavailable] init
  have "self_palette b = (if unavailable then Palette_unavailable
                          else if hover then Palette_hover else Palette_palette)"
    by auto
  then show ?thesis using palettes_distinct by auto
qed

text \<open>The theorem at a button with both flags set.\<close>

theorem palette_precedence_witness:
  "\<exists>b. RectButton_init RectButtonClass test_env (60, 30) ''Save'' True True
          (PyList [True, True, True, True]) (PyList [True, True, False, False]) False = Inr b
     \<and> self_palette b = Palette_unavailable \<and> self_palette b \<noteq> Palette_hover"
proof -
  obtain label where label: "build_text test_env ''Save'' = Inr (label, False)"
    using build_text_Save by blast
  obtain b where b: "RectButton_init RectButtonClass test_env (60, 30) ''Save'' True True
          (PyList [True, True, True, True]) (PyList [True, True, False, False]) False = Inr b"
    using RectButton_init_returns [where rounded_corners = "PyList [True, True, True, True]"
        and shadows = "PyList [True, True, False, False]" and w = 60 and h = 30
        and hanging = False and cls = RectButtonClass and e = test_env and ?text = "''Save''"
        and hover = True and unavailable = True, OF _ _ _ _ label]
    by (auto simp: has_four_def pygame_Surface_test_env)
  from palette_precedence [OF b] b show ?thesis by auto
qed

subsection \<open>C10: the rope band\<close>

text \<open>
  Claim C10: in every hanging button that \<open>Button.new\<close> returns, rows 0 to 5 are the text
  blitted over the rope band, whose connectors have the colours of the default palette
  whatever \<open>hover\<close> and \<open>unavailable\<close> are; the default render of the same button exists,
  has the same size and has the same pixels in these rows.
\<close>

theorem rope_band_palette_invariant:
  assumes "Button_new e size' text hover unavailable rounded_corners shadows True = Inr s"
    and "y < 6"
  shows "\<exists>label symbol. build_text e text = Inr (label, symbol)
       \<and> get_at s x y =
           get_at (blit (blend e) (rope_canvas size') label
             (get_rect_center label (text_center (fst size', snd size' - 6) True symbol))) x y
       \<and> (\<exists>s0. Button_new e size' text False False rounded_corners shadows True = Inr s0
             \<and> get_width s0 = get_width s \<and> get_height s0 = get_height s
             \<and> get_at s0 x y = get_at s x y)"
proof -
  obtain w h where sz: "size' = (w, h)" by (cases size')
  note new = assms(1) [unfolded sz]
  from Button_new_Inr [OF new] obtain rc' sh' c0 label symbol where
    pre: "check_shape rounded_corners = Inr rc'" "has_four rc'"
      "check_shape shadows = Inr sh'" "has_four sh'"
      "pygame_Surface (allocates e) (w, if True then h - 6 else h) True = Inr c0"
      "True \<longrightarrow> (\<exists>c. pygame_Surface (allocates e) (w, h) True = Inr c)"
      "build_text e text = Inr (label, symbol)"
    by blast
  from Button_new_returns [OF pre, of hover unavailable] new assms(2)
  have 1: "get_width s = nat w" "get_height s = nat h"
    "get_at s x y =
           get_at (blit (blend e) (rope_canvas (w, h)) label
             (get_rect_center label (text_center (w, h - 6) True symbol))) x y"
    by auto
  from Button_new_returns [OF pre, of False False] assms(2)
  obtain s0 where 2: "Button_new e (w, h) text False False rounded_corners shadows True = Inr s0"
    "get_width s0 = nat w" "get_height s0 = nat h"
    "get_at s0 x y =
           get_at (blit (blend e) (rope_canvas (w, h)) label
             (get_rect_center label (text_center (w, h - 6) True symbol))) x y"
    by auto
  show ?thesis unfolding sz using pre(7) 1 2 by simp
qed

text \<open>
  The theorem at a hovered hanging button of 60 by 30: the pixel at column 13 of row 2
  has the default palette's inline colour, as in the default render.
\<close>

theorem rope_band_palette_invariant_witness:
  "\<exists>s s0. Button_new test_env (60, 30) ''Save'' True False
          (PyList [True, True, True, True]) (PyList [True, True, False, False]) True = Inr s
     \<and> Button_new test_env (60, 30) ''Save'' False False
          (PyList [True, True, True, True]) (PyList [True, True, False, False]) True = Inr s0
     \<and> get_at s0 13 2 = get_at s 13 2
     \<and> get_at s 13 2 = Palette_palette ! 2"
proof -
  obtain label where label: "build_text test_env ''Save'' = Inr (label, False)"
    "get_width label = 32" "get_height label = 16"
    using build_text_Save by blast
  obtain s where s: "Button_new test_env (60, 30) ''Save'' True False
          (PyList [True, True, True, True]) (PyList [True, True, False, False]) True = Inr s"
    using Button_new_returns [where rounded_corners = "PyList [True, True, True, True]"
        and rc' = "PyList [True, True, True, True]"
        and shadows = "PyList [True, True, False, False]"
        and sh' = "PyList [True, True, False, False]" and w = 60 and h = 30 and hanging = True
        and e = test_env and ?text = "''Save''" and hover = True and unavailable = False,
        OF _ _ _ _ _ _ label(1)]
    by (auto simp: has_four_def pygame_Surface_test_env)
  have px: "get_at (blit (blend test_env) (rope_canvas (60, 30)) label
             (get_rect_center label (text_center (fst (60, 30), snd (60, 30) - 6) True False))) 13 2
        = Palette_palette ! 2"
    by (simp add: get_at_blit text_center_def get_rect_center_def py_int_def inside_def
        label rope_canvas_def rope_band_def connector_color_def)
  from rope_band_palette_invariant [OF s, of 2 13] px s label(1) show ?thesis by auto
qed

end
